theory Spec2Isabelle
  imports Complex_Main
begin

unbundle bit_operations_syntax

section \<open>Conventions of the embedding\<close>

text \<open>
  The development embeds \<^verbatim>\<open>src/matrices/eigensolver.c\<close>: the Ridder line minimiser
  \<^verbatim>\<open>linmin\<close>, the trace functional \<^verbatim>\<open>trace_func\<close> and the driver
  \<^verbatim>\<open>eigensolver\<close>.

  \<^item> The C type \<^verbatim>\<open>real\<close> (a double) is modelled by the mathematical reals. Rounding,
    overflow, infinities and NaN are not represented. Where the code divides by a value
    that is zero, or takes the square root of a negative value, the double result leaves
    the reals; the model stops there with the outcome \<open>Not_real\<close>, so that no theorem
    speaks about such a run.
  \<^item> Modelled from the spec: the macro \<^verbatim>\<open>CHECK(cond, msg)\<close> of \<^verbatim>\<open>check.h\<close>, which is not in
    the source tree, raises a fatal error when \<open>cond\<close> is false. Every such abort is a
    value \<open>Inl e\<close> of the result type.
  \<^item> A loop that need not terminate is a \<^theory_text>\<open>partial_function (option)\<close>; the value
    \<open>None\<close> stands for a run that does not return.
  \<^item> The code is taken as compiled without \<^verbatim>\<open>DEBUG\<close>, so \<^verbatim>\<open>flags\<close> is used as passed.
\<close>

datatype error =
    Not_enough_workspace  \<comment> \<open>\<^verbatim>\<open>"not enough workspace"\<close>\<close>
  | Bad_initial_guess  \<comment> \<open>\<^verbatim>\<open>"linmin: bad initial guess!"\<close>\<close>
  | Guess_out_of_range  \<comment> \<open>\<^verbatim>\<open>"linmin: initial guess out of range"\<close>\<close>
  | Failed_to_bracket  \<comment> \<open>\<^verbatim>\<open>"linmin: failed to bracket minimum!"\<close>\<close>
  | Crazy_number  \<comment> \<open>\<^verbatim>\<open>"crazy number detected in trace!!"\<close>\<close>
  | Failure_to_converge  \<comment> \<open>\<^verbatim>\<open>"failure to converge after 10000 iterations"\<close>\<close>
  | Not_real  \<comment> \<open>division by zero or square root of a negative number: outside the model\<close>
  | Uninitialised_read  \<comment> \<open>use of a local variable that was never assigned\<close>

type_synonym 'r res = "(error + 'r) option"

definition MIN2 :: "real \<Rightarrow> real \<Rightarrow> real" where
  "MIN2 a b = (if a < b then a else b)"

definition MAX2 :: "real \<Rightarrow> real \<Rightarrow> real" where
  "MAX2 a b = (if a > b then a else b)"

definition K_PI :: real where
  "K_PI = 3.141592653589793238462643383279502884197"

definition EIGENSOLVER_MAX_ITERATIONS :: nat where
  "EIGENSOLVER_MAX_ITERATIONS = 10000"

definition CG_RESET_ITERS :: nat where
  "CG_RESET_ITERS = 70"

definition EXACT_LINMIN_TIME :: "real \<Rightarrow> real \<Rightarrow> real \<Rightarrow> real \<Rightarrow> real \<Rightarrow> real \<Rightarrow> real" where
  "EXACT_LINMIN_TIME t_AZ t_KZ t_ZtW t_ZS t_ZtZ t_linmin =
     t_AZ * 2 + t_KZ + t_ZtW * 4 + t_ZS * 2 + t_ZtZ * 2 + t_linmin"

definition APPROX_LINMIN_TIME :: "real \<Rightarrow> real \<Rightarrow> real \<Rightarrow> real \<Rightarrow> real \<Rightarrow> real" where
  "APPROX_LINMIN_TIME t_AZ t_KZ t_ZtW t_ZS t_ZtZ =
     t_AZ * 2 + t_KZ + t_ZtW * 2 + t_ZS * 2 + t_ZtZ * 2"

definition APPROX_LINMIN_SLOWDOWN_GUESS :: real where
  "APPROX_LINMIN_SLOWDOWN_GUESS = 2.0"

definition APPROX_LINMIN_IMPROVEMENT_THRESHOLD :: real where
  "APPROX_LINMIN_IMPROVEMENT_THRESHOLD = 0.05"

section \<open>The line minimiser \<^verbatim>\<open>linmin\<close>\<close>

text \<open>
  \<^verbatim>\<open>func(&df, x, data)\<close> returns the function value and stores the derivative; with a
  null first argument only the value is computed. The callback is a function from \<open>x\<close>
  to the pair (value, derivative); it may abort.
\<close>

type_synonym linfunc = "real \<Rightarrow> error + real \<times> real"

text \<open>A point of the line with the function value and the derivative there.\<close>

type_synonym point = "real \<times> real \<times> real"

text \<open>
  The \<^verbatim>\<open>for\<close> loop of lines 182--190. \<open>dx\<close> is fixed for the whole loop; \<open>xmin\<close> is the
  value on entry (the loop only updates the copies \<open>xmin2\<close>, \<open>f_xmin2\<close>, \<open>df_xmin2\<close>, the
  argument \<open>m2\<close>). The loop is left either by \<^verbatim>\<open>break\<close>, with \<open>x\<close>, \<open>f\<close>, \<open>df\<close> and the copies
  (\<open>Bracketed\<close>), or because \<open>x*s \<le> xmax*s\<close> fails (\<open>Ran_past\<close>). The test of line 191
  repeats the loop condition on the unchanged \<open>x\<close>, so it holds exactly after a
  \<^verbatim>\<open>break\<close>.
\<close>

datatype scan = Bracketed real real real point | Ran_past

partial_function (option) bracket_for ::
  "linfunc \<Rightarrow> real \<Rightarrow> real \<Rightarrow> real \<Rightarrow> real \<Rightarrow> real \<Rightarrow> point \<Rightarrow> scan res"
where
  "bracket_for func s xmin xmax dx x m2 =
     (if x * s \<le> xmax * s then
        (case func x of
           Inl e \<Rightarrow> Some (Inl e)
         | Inr (f, df) \<Rightarrow>
             if df * (x - xmin) > 0 then Some (Inr (Bracketed x f df m2))
             else bracket_for func s xmin xmax dx (x + dx) (x, f, df))
      else Some (Inr Ran_past))"

text \<open>
  The state after the \<^verbatim>\<open>do ... while\<close> loop of lines 179--197. \<open>f_xmax\<close> and \<open>df_xmax\<close>
  are uninitialised (\<open>None\<close>) until a bracket is found.
\<close>

record bracketing =
  br_x0 :: real
  br_min :: point
  br_xmax :: real
  br_max :: "(real \<times> real) option"

partial_function (option) bracket_loop ::
  "linfunc \<Rightarrow> real \<Rightarrow> real \<Rightarrow> real \<Rightarrow> real \<Rightarrow> point \<Rightarrow> bracketing res"
where
  "bracket_loop func s tolerance xmax x0 m =
     (case m of (xmin, f_xmin, df_xmin) \<Rightarrow>
        let dx = (x0 - xmin) * 2.0 in
        (case bracket_for func s xmin xmax dx (xmin + dx) m of
           None \<Rightarrow> None
         | Some (Inl e) \<Rightarrow> Some (Inl e)
         | Some (Inr (Bracketed x f df m2)) \<Rightarrow>
             Some (Inr \<lparr>br_x0 = x0, br_min = m2, br_xmax = x, br_max = Some (f, df)\<rparr>)
         | Some (Inr Ran_past) \<Rightarrow>
             let x0' = 0.5 * (x0 + xmin) in
             if \<bar>x0' - xmin\<bar> > tolerance * (\<bar>x0'\<bar> + tolerance)
             then bracket_loop func s tolerance xmax x0' m
             else Some (Inr \<lparr>br_x0 = x0', br_min = m, br_xmax = xmax, br_max = None\<rparr>)))"

text \<open>
  Lines 249--274: which end of the bracket is replaced by the Ridder point \<open>x\<close> or by
  \<open>x0\<close>. The result is the new pair (lower end, upper end).
\<close>

definition ridder_update :: "point \<Rightarrow> point \<Rightarrow> point \<Rightarrow> point \<Rightarrow> point \<times> point" where
  "ridder_update pmin pmax p0 px =
     (case pmin of (xmin, f_xmin, df_xmin) \<Rightarrow>
      case p0 of (x0, f_x0, df_x0) \<Rightarrow>
      case px of (x, f, df) \<Rightarrow>
        if df * df_x0 > 0 \<or> (df - df_x0) * (x - x0) < 0 then
          (if x < x0 then
             (if df_xmin * df > 0 \<or> (df_xmin - df) * (xmin - x) < 0
              then (p0, pmax)
              else (pmin, px))
           else if df_xmin * df_x0 > 0 \<or> (df_xmin - df_x0) * (xmin - x0) < 0
           then (px, pmax)
           else (pmin, p0))
        else
          (if x < x0 then (px, p0) else (p0, px)))"

text \<open>
  The \<^verbatim>\<open>while (1)\<close> loop of lines 218--278. \<open>fstart\<close> is \<open>None\<close> while \<^verbatim>\<open>is_xstart\<close> is
  set, and holds \<open>f_xstart\<close> afterwards. The loop returns the final \<open>x0\<close> and \<open>f_xstart\<close>.
\<close>

partial_function (option) ridder_loop ::
  "linfunc \<Rightarrow> real \<Rightarrow> real option \<Rightarrow> real \<Rightarrow> real \<Rightarrow> point \<Rightarrow> point \<Rightarrow> (real \<times> real) res"
where
  "ridder_loop func tolerance fstart x_prev x0 pmin pmax =
     (case func x0 of
        Inl e \<Rightarrow> Some (Inl e)
      | Inr (f_x0, df_x0) \<Rightarrow>
          let f_xstart = (case fstart of None \<Rightarrow> f_x0 | Some v \<Rightarrow> v);
              xmin = fst pmin; df_xmin = snd (snd pmin);
              xmax = fst pmax; df_xmax = snd (snd pmax)
          in
          if df_x0 = 0 then Some (Inr (x0, f_xstart))
          else if df_xmin = 0 then Some (Inr (xmin, f_xstart))
          else if df_xmax = 0 then Some (Inr (xmax, f_xstart))
          else if df_x0 * df_x0 - df_xmin * df_xmax \<le> 0 then Some (Inl Not_real)
          else
            let x = x0 + (x0 - xmin) * (if df_xmin > df_xmax then 1 else -1) *
                      df_x0 / sqrt (df_x0 * df_x0 - df_xmin * df_xmax)
            in
            if MAX2 \<bar>x - x_prev\<bar> (MIN2 \<bar>x - xmin\<bar> \<bar>x - xmax\<bar>) <
                 tolerance * (\<bar>x\<bar> + tolerance)
            then Some (Inr (x, f_xstart))
            else
              (case func x of
                 Inl e \<Rightarrow> Some (Inl e)
               | Inr (f, df) \<Rightarrow>
                   (case ridder_update pmin pmax (x0, f_x0, df_x0) (x, f, df) of
                      (pmin', pmax') \<Rightarrow>
                        ridder_loop func tolerance (Some f_xstart) x
                          (0.5 * (fst pmin' + fst pmax')) pmin' pmax')))"

text \<open>
  Lines 170--174: the two precondition checks, and the direction \<open>s\<close> from \<open>xmin\<close> to
  \<open>xmax\<close>.
\<close>

definition linmin_direction :: "real \<Rightarrow> real \<Rightarrow> real" where
  "linmin_direction xmin xmax = (if xmax > xmin then 1.0 else -1.0)"

definition linmin_precheck :: "real \<Rightarrow> real \<Rightarrow> real \<Rightarrow> real \<Rightarrow> error option" where
  "linmin_precheck xmin df_xmin xmax x0 =
     (if \<not> df_xmin * (x0 - xmin) < 0.0 then Some Bad_initial_guess
      else let s = linmin_direction xmin xmax in
        if \<not> (x0 * s < xmax * s \<and> x0 * s > xmin * s) then Some Guess_out_of_range
        else None)"

text \<open>
  Lines 198--290, entered with the state left by the bracketing loop: the check that
  the bracketing succeeded, the re-centring of \<open>x0\<close>, the swap that orders the bracket,
  Ridder's iteration and the improvement. The result is the pair
  (returned \<open>x0\<close>, \<^verbatim>\<open>*improvement\<close>). The check of line 198 is evaluated on the final
  \<open>x0\<close> and \<open>xmin\<close>, whichever way the loop was left. Past the check the code reads
  \<open>f_xmax\<close> and \<open>df_xmax\<close>; were they still unset there, the run would be a read of
  unassigned locals, which the model reports as \<open>Uninitialised_read\<close> (it cannot occur:
  lemma \<open>bracket_loop_unbracketed\<close>).
\<close>

definition linmin_finish :: "linfunc \<Rightarrow> real \<Rightarrow> real \<Rightarrow> bracketing \<Rightarrow> (real \<times> real) res" where
  "linmin_finish func s tolerance b =
     (case br_min b of (xmin, f_xmin, df_xmin) \<Rightarrow>
      if \<not> \<bar>br_x0 b - xmin\<bar> > tolerance * (\<bar>br_x0 b\<bar> + tolerance)
      then Some (Inl Failed_to_bracket)
      else
        (case br_max b of
           None \<Rightarrow> Some (Inl Uninitialised_read)
         | Some (f_xmax, df_xmax) \<Rightarrow>
             let xmax = br_xmax b;
                 x0 = (if br_x0 b * s \<le> xmin * s \<or> br_x0 b * s \<ge> xmax * s
                       then 0.5 * (xmin + xmax) else br_x0 b);
                 pmin = (if xmin > xmax then (xmax, f_xmax, df_xmax) else (xmin, f_xmin, df_xmin));
                 pmax = (if xmin > xmax then (xmin, f_xmin, df_xmin) else (xmax, f_xmax, df_xmax))
             in
             (case ridder_loop func tolerance None x0 x0 pmin pmax of
                None \<Rightarrow> None
              | Some (Inl e) \<Rightarrow> Some (Inl e)
              | Some (Inr (x0', f_xstart)) \<Rightarrow>
                  (case func x0' of
                     Inl e \<Rightarrow> Some (Inl e)
                   | Inr (f_x0, _) \<Rightarrow>
                       if \<bar>f_xstart\<bar> + \<bar>f_x0\<bar> + tolerance = 0 then Some (Inl Not_real)
                       else Some (Inr (x0', (f_xstart - f_x0) * 2.0 /
                                              (\<bar>f_xstart\<bar> + \<bar>f_x0\<bar> + tolerance)))))))"

definition linmin ::
  "real \<Rightarrow> real \<Rightarrow> real \<Rightarrow> real \<Rightarrow> real \<Rightarrow> real \<Rightarrow> linfunc \<Rightarrow> (real \<times> real) res"
where
  "linmin xmin f_xmin df_xmin xmax x0 tolerance func =
     (case linmin_precheck xmin df_xmin xmax x0 of
        Some e \<Rightarrow> Some (Inl e)
      | None \<Rightarrow>
          let s = linmin_direction xmin xmax in
          (case bracket_loop func s tolerance xmax x0 (xmin, f_xmin, df_xmin) of
             None \<Rightarrow> None
           | Some (Inl e) \<Rightarrow> Some (Inl e)
           | Some (Inr b) \<Rightarrow> linmin_finish func s tolerance b))"

section \<open>Data of the driver\<close>

text \<open>
  Modelled from the spec: the type \<^verbatim>\<open>evectmatrix\<close> of \<^verbatim>\<open>matrices.h\<close> and the macros
  \<^verbatim>\<open>ASSIGN_ZERO\<close> and \<^verbatim>\<open>ACCUMULATE_DIFF\<close> of \<^verbatim>\<open>scalar.h\<close>, which are not in the source
  tree. A block vector has the dimensions \<^verbatim>\<open>n\<close>, \<^verbatim>\<open>p\<close> and the array \<^verbatim>\<open>data\<close>, a map from
  offsets to scalars. The scalar type \<open>'a\<close> is \<^verbatim>\<open>scalar\<close> (real or complex);
  \<^verbatim>\<open>ASSIGN_ZERO(a)\<close> is \<open>a := 0\<close> and \<^verbatim>\<open>ACCUMULATE_DIFF(a, b)\<close> is \<open>a := a - b\<close>. The
  \<^verbatim>\<open>int\<close> dimensions and counters are natural numbers: the products \<^verbatim>\<open>n * p\<close> index arrays
  that exist in memory and the iteration counter stays below 10001, so none wraps.
\<close>

record 'a evectmatrix =
  em_n :: nat
  em_p :: nat
  em_data :: "nat \<Rightarrow> 'a"

text \<open>
  Blocks are passed by value, so a callee can change the array \<^verbatim>\<open>data\<close> of a block
  but not its dimensions: every operation that writes a block yields the new contents
  of the array, which \<open>set_data\<close> stores.

  The callbacks. \<^verbatim>\<open>A(Xin, Xout, data, is_current_Y, Work)\<close> writes \<^verbatim>\<open>Xout\<close> and may use
  \<^verbatim>\<open>Work\<close> as scratch: it maps the input, the flag and the old \<^verbatim>\<open>Xout\<close> and \<^verbatim>\<open>Work\<close> to
  the new contents of both. \<^verbatim>\<open>K(Xin, Xout, data, Y, eigenvals, YtY)\<close> is always called
  with null \<^verbatim>\<open>eigenvals\<close>. The opaque \<^verbatim>\<open>data\<close> pointers are not modelled; the callbacks
  are assumed to return.
\<close>

definition set_data :: "'a evectmatrix \<Rightarrow> (nat \<Rightarrow> 'a) \<Rightarrow> 'a evectmatrix" where
  "set_data X d = X\<lparr>em_data := d\<rparr>"

type_synonym 'a evectoperator =
  "'a evectmatrix \<Rightarrow> bool \<Rightarrow> 'a evectmatrix \<Rightarrow> 'a evectmatrix \<Rightarrow> (nat \<Rightarrow> 'a) \<times> (nat \<Rightarrow> 'a)"

type_synonym ('a, 'm) evectpreconditioner =
  "'a evectmatrix \<Rightarrow> 'a evectmatrix \<Rightarrow> 'a evectmatrix \<Rightarrow> 'm \<Rightarrow> nat \<Rightarrow> 'a"

type_synonym 'a evectconstraint = "'a evectmatrix \<Rightarrow> nat \<Rightarrow> 'a"

text \<open>The operations whose elapsed time \<^verbatim>\<open>TIME_OP\<close> measures.\<close>

datatype timed_op = Op_ZtZ | Op_AZ | Op_ZS | Op_ZtW | Op_KZ | Op_linmin

text \<open>
  What is not in \<^verbatim>\<open>eigensolver.c\<close> is a parameter of the model: the flag masks of
  \<^verbatim>\<open>eigensolver.h\<close>, the macros \<^verbatim>\<open>BADNUM\<close> and \<^verbatim>\<open>SCALAR_RE\<close>, the block and square-matrix
  primitives (each maps the old contents of its arguments to the new contents of the
  argument it writes; \<open>'m\<close> is \<^verbatim>\<open>sqmatrix\<close>), \<^verbatim>\<open>eigensolver_get_eigenvals_aux\<close>, and the
  clock: \<open>elapsed i op\<close> is the time \<^verbatim>\<open>TIME_OP\<close> stores for \<open>op\<close> in iteration \<open>i\<close>, and
  \<open>feedback_due i\<close> tells whether more than \<^verbatim>\<open>FEEDBACK_TIME\<close> has passed since the last
  progress line.
\<close>

record ('a, 'm) env =
  EIGS_VERBOSE :: int
  EIGS_PROJECT_PRECONDITIONING :: int
  EIGS_RESET_CG :: int
  EIGS_FORCE_EXACT_LINMIN :: int
  EIGS_FORCE_APPROX_LINMIN :: int
  BADNUM :: "real \<Rightarrow> bool"
  SCALAR_RE :: "'a \<Rightarrow> real"
  elapsed :: "nat \<Rightarrow> timed_op \<Rightarrow> real"
  feedback_due :: "nat \<Rightarrow> bool"
  blasglue_scal :: "nat \<Rightarrow> real \<Rightarrow> (nat \<Rightarrow> 'a) \<Rightarrow> (nat \<Rightarrow> 'a)"
  blasglue_scal_sq :: "nat \<Rightarrow> real \<Rightarrow> 'm \<Rightarrow> 'm"
  evectmatrix_XtX :: "'a evectmatrix \<Rightarrow> 'm"
  evectmatrix_XtY :: "'a evectmatrix \<Rightarrow> 'a evectmatrix \<Rightarrow> 'm"
  evectmatrix_XeYS :: "'a evectmatrix \<Rightarrow> 'a evectmatrix \<Rightarrow> 'm \<Rightarrow> bool \<Rightarrow> nat \<Rightarrow> 'a"
  evectmatrix_XpaYS :: "'a evectmatrix \<Rightarrow> real \<Rightarrow> 'a evectmatrix \<Rightarrow> 'm \<Rightarrow> nat \<Rightarrow> 'a"
  evectmatrix_aXpbY :: "real \<Rightarrow> 'a evectmatrix \<Rightarrow> real \<Rightarrow> 'a evectmatrix \<Rightarrow> nat \<Rightarrow> 'a"
  evectmatrix_copy :: "'a evectmatrix \<Rightarrow> 'a evectmatrix \<Rightarrow> nat \<Rightarrow> 'a"
  evectmatrix_traceXtY :: "'a evectmatrix \<Rightarrow> 'a evectmatrix \<Rightarrow> 'a"
  sqmatrix_trace :: "'m \<Rightarrow> 'a"
  sqmatrix_traceAtB :: "'m \<Rightarrow> 'm \<Rightarrow> 'a"
  sqmatrix_invert :: "'m \<Rightarrow> 'm"
  sqmatrix_symmetrize :: "'m \<Rightarrow> 'm"
  sqmatrix_AeBC :: "'m \<Rightarrow> bool \<Rightarrow> 'm \<Rightarrow> bool \<Rightarrow> 'm"
  sqmatrix_ApaBC :: "'m \<Rightarrow> real \<Rightarrow> 'm \<Rightarrow> bool \<Rightarrow> 'm \<Rightarrow> bool \<Rightarrow> 'm"
  sqmatrix_aApbB :: "real \<Rightarrow> 'm \<Rightarrow> real \<Rightarrow> 'm \<Rightarrow> 'm"
  sqmatrix_ApaB :: "'m \<Rightarrow> real \<Rightarrow> 'm \<Rightarrow> 'm"
  eigensolver_get_eigenvals_aux ::
    "'a evectmatrix \<Rightarrow> (nat \<Rightarrow> real) \<Rightarrow> 'a evectoperator \<Rightarrow> 'a evectmatrix \<Rightarrow> 'a evectmatrix \<Rightarrow> 'm \<Rightarrow>
       (nat \<Rightarrow> 'a) \<times> (nat \<Rightarrow> real) \<times> (nat \<Rightarrow> 'a) \<times> (nat \<Rightarrow> 'a)"

text \<open>The arguments of \<^verbatim>\<open>eigensolver\<close> that stay fixed during the call.\<close>

record ('a, 'm) args =
  A :: "'a evectoperator"
  K :: "('a, 'm) evectpreconditioner option"
  constraint :: "'a evectconstraint option"
  nWork :: int
  tolerance :: real
  flags :: int

text \<open>What the driver prints. The percentages of the progress lines are left out.\<close>

datatype message =
    Msg_iteration nat real
  | Msg_resetting_CG
  | Msg_switching_back_to_exact
  | Msg_dE real real real
  | Msg_near_maximum
  | Msg_large_trace_change
  | Msg_large_theta real
  | Msg_switching_to_approximate

text \<open>
  The memory the driver works on: the caller's \<^verbatim>\<open>Y\<close>, \<^verbatim>\<open>Work[]\<close> and \<^verbatim>\<open>eigenvals\<close>, the
  locals that live across statements, the square matrices it allocates, and the
  standard output. \<^verbatim>\<open>G\<close>, \<^verbatim>\<open>X\<close>, \<^verbatim>\<open>D\<close> and \<^verbatim>\<open>prev_G\<close> are handles into \<^verbatim>\<open>Work[]\<close>
  (see \<open>G_ix\<close> \<open>\<dots>\<close> \<open>prev_G_ix\<close>), so that \<^verbatim>\<open>D = X\<close> and \<^verbatim>\<open>prev_G = G\<close> alias as in the code.
\<close>

record ('a, 'm) state =
  Y :: "'a evectmatrix"
  Work :: "nat \<Rightarrow> 'a evectmatrix"
  eigenvals :: "nat \<Rightarrow> real"
  use_linmin :: bool
  E :: real
  prev_E :: real
  traceGtX :: real
  prev_traceGtX :: real
  theta :: real
  prev_theta :: real
  d_norm :: real
  time_AZ :: real
  time_KZ :: real
  time_ZtZ :: real
  time_ZtW :: real
  time_ZS :: real
  time_linmin :: real
  linmin_improvement :: real
  YtAYU :: 'm
  DtAD :: 'm
  symYtAD :: 'm
  YtY :: 'm
  U :: 'm
  DtD :: 'm
  symYtD :: 'm
  S1 :: 'm
  S2 :: 'm
  S3 :: 'm
  printed :: "message list"

definition G_ix :: nat where "G_ix = 0"

definition X_ix :: nat where "X_ix = 1"

definition usingConjugateGradient :: "('a, 'm) args \<Rightarrow> bool" where
  "usingConjugateGradient a \<longleftrightarrow> nWork a \<ge> 3"

definition use_polak_ribiere :: "('a, 'm) args \<Rightarrow> bool" where
  "use_polak_ribiere a \<longleftrightarrow> nWork a \<ge> 4"

definition D_ix :: "('a, 'm) args \<Rightarrow> nat" where
  "D_ix a = (if usingConjugateGradient a then 2 else X_ix)"

definition prev_G_ix :: "('a, 'm) args \<Rightarrow> nat" where
  "prev_G_ix a = (if use_polak_ribiere a then 3 else G_ix)"

definition flag_set :: "int \<Rightarrow> int \<Rightarrow> bool" where
  "flag_set fl opt \<longleftrightarrow> fl AND opt \<noteq> 0"

definition say :: "message \<Rightarrow> ('a, 'm) state \<Rightarrow> ('a, 'm) state" where
  "say msg st = st\<lparr>printed := printed st @ [msg]\<rparr>"

section \<open>The trace functional \<^verbatim>\<open>trace_func\<close>\<close>

text \<open>
  The inputs of \<^verbatim>\<open>trace_func_data\<close>. Its scratch matrices \<^verbatim>\<open>S1\<close>, \<^verbatim>\<open>S2\<close>, \<^verbatim>\<open>S3\<close> are written
  before they are read in every call, so the function is a map from \<open>theta\<close> to the
  trace and its derivative.
\<close>

record 'm trace_func_data =
  tfd_d_norm :: real
  tfd_YtAY :: 'm
  tfd_DtAD :: 'm
  tfd_symYtAD :: 'm
  tfd_YtY :: 'm
  tfd_DtD :: 'm
  tfd_symYtD :: 'm

definition trace_func :: "('a, 'm) env \<Rightarrow> 'm trace_func_data \<Rightarrow> linfunc" where
  "trace_func ev d th =
     (if tfd_d_norm d = 0 then Inl Not_real
      else
        let c = cos th; s = sin th / tfd_d_norm d;
            s1 = sqmatrix_invert ev
                   (sqmatrix_ApaB ev (sqmatrix_aApbB ev (c * c) (tfd_YtY d) (s * s) (tfd_DtD d))
                      (2 * s * c) (tfd_symYtD d));
            s2 = sqmatrix_ApaB ev (sqmatrix_aApbB ev (c * c) (tfd_YtAY d) (s * s) (tfd_DtAD d))
                   (2 * s * c) (tfd_symYtAD d);
            trace = SCALAR_RE ev (sqmatrix_traceAtB ev s2 s1);
            c2 = cos (2 * th); s2' = sin (2 * th);
            s3 = sqmatrix_aApbB ev (-0.5 * s2')
                   (sqmatrix_ApaB ev (tfd_YtAY d) (-1.0 / (tfd_d_norm d * tfd_d_norm d)) (tfd_DtAD d))
                   (c2 / tfd_d_norm d) (tfd_symYtAD d);
            trace_deriv = SCALAR_RE ev (sqmatrix_traceAtB ev s1 s3);
            s3a = sqmatrix_AeBC ev s1 False s2 True;
            s2a = sqmatrix_AeBC ev s3a False s1 True;
            s3b = sqmatrix_aApbB ev (-0.5 * s2')
                    (sqmatrix_ApaB ev (tfd_YtY d) (-1.0 / (tfd_d_norm d * tfd_d_norm d)) (tfd_DtD d))
                    (c2 / tfd_d_norm d) (tfd_symYtD d);
            trace_deriv' = (trace_deriv - SCALAR_RE ev (sqmatrix_traceAtB ev s2a s3b)) * 2
        in Inr (trace, trace_deriv'))"

section \<open>The driver \<^verbatim>\<open>eigensolver\<close>\<close>

subsection \<open>Entry (lines 322--368)\<close>

text \<open>The loops that clear an array: \<^verbatim>\<open>for (i = 0; i < N; ++i) a[i] = 0\<close>.\<close>

definition zero_fill :: "nat \<Rightarrow> (nat \<Rightarrow> 'z::zero) \<Rightarrow> (nat \<Rightarrow> 'z)" where
  "zero_fill N a = fold (\<lambda>i b. b(i := 0)) [0..<N] a"

text \<open>
  \<open>st0\<close> holds the caller's \<^verbatim>\<open>Y\<close>, \<^verbatim>\<open>Work[]\<close> and \<^verbatim>\<open>eigenvals\<close>, and the indeterminate
  initial contents of the locals that the code does not initialise and of the matrices
  returned by \<^verbatim>\<open>create_sqmatrix\<close>.
\<close>

definition eigensolver_init ::
  "('a::{zero,minus}, 'm) args \<Rightarrow> ('a, 'm) state \<Rightarrow> error + ('a, 'm) state"
where
  "eigensolver_init a st0 =
     (if \<not> nWork a \<ge> 2 then Inl Not_enough_workspace
      else
        let st1 = st0\<lparr>use_linmin := True, prev_E := 0.0, prev_traceGtX := 0.0,
                      prev_theta := 0.5, printed := []\<rparr>;
            st2 = (if usingConjugateGradient a then
                     let D = Work st1 2 in
                     st1\<lparr>Work := (Work st1)
                            (2 := set_data D (zero_fill (em_n D * em_p D) (em_data D)))\<rparr>
                   else st1);
            st3 = (if use_polak_ribiere a then
                     let prev_G = Work st2 3 in
                     st2\<lparr>Work := (Work st2)
                            (3 := set_data prev_G
                                    (zero_fill (em_n (Y st2) * em_p (Y st2)) (em_data prev_G)))\<rparr>
                   else st2);
            st4 = st3\<lparr>eigenvals := zero_fill (em_p (Y st3)) (eigenvals st3)\<rparr>
        in
        Inr (case constraint a of
               None \<Rightarrow> st4
             | Some c \<Rightarrow> st4\<lparr>Y := set_data (Y st4) (c (Y st4))\<rparr>))"

subsection \<open>One iteration (lines 371--621)\<close>

text \<open>Lines 373--384: the forced strategy, the normalisation of \<open>Y\<close> and \<open>U = 1/(YtY)\<close>.\<close>

definition force_approx :: "('a, 'm) env \<Rightarrow> ('a, 'm) args \<Rightarrow> ('a, 'm) state \<Rightarrow> ('a, 'm) state" where
  "force_approx ev a st =
     (if flag_set (flags a) (EIGS_FORCE_APPROX_LINMIN ev) then st\<lparr>use_linmin := False\<rparr> else st)"

definition normalize ::
  "('a, 'm) env \<Rightarrow> nat \<Rightarrow> ('a, 'm) state \<Rightarrow> error + ('a, 'm) state"
where
  "normalize ev iteration st =
     (let st1 = st\<lparr>time_ZtZ := elapsed ev iteration Op_ZtZ, YtY := evectmatrix_XtX ev (Y st)\<rparr>;
          p = em_p (Y st1); n = em_n (Y st1)
      in
      if p = 0 \<or> SCALAR_RE ev (sqmatrix_trace ev (YtY st1)) / real p < 0 then Inl Not_real
      else
        let y_norm = sqrt (SCALAR_RE ev (sqmatrix_trace ev (YtY st1)) / real p) in
        if y_norm = 0 then Inl Not_real
        else
          let st2 = st1\<lparr>Y := set_data (Y st1)
                               (blasglue_scal ev (p * n) (1 / y_norm) (em_data (Y st1))),
                        YtY := blasglue_scal_sq ev (p * p) (1 / (y_norm * y_norm)) (YtY st1)\<rparr>
          in Inr (st2\<lparr>U := sqmatrix_invert ev (YtY st2)\<rparr>))"

text \<open>Lines 386--393: \<open>X = AY\<close>, \<open>G = AYU\<close>, the trace \<open>E\<close> and its sanity check.\<close>

definition apply_operator ::
  "('a, 'm) env \<Rightarrow> ('a, 'm) args \<Rightarrow> nat \<Rightarrow> ('a, 'm) state \<Rightarrow> error + ('a, 'm) state"
where
  "apply_operator ev a iteration st =
     (let (ay, scratch) = A a (Y st) True (Work st X_ix) (Work st G_ix);
          st1 = st\<lparr>time_AZ := elapsed ev iteration Op_AZ,
                    Work := (Work st)(X_ix := set_data (Work st X_ix) ay,
                                      G_ix := set_data (Work st G_ix) scratch)\<rparr>;
          st2 = st1\<lparr>time_ZS := elapsed ev iteration Op_ZS,
                     Work := (Work st1)
                       (G_ix := set_data (Work st1 G_ix)
                          (evectmatrix_XeYS ev (Work st1 G_ix) (Work st1 X_ix) (U st1) True))\<rparr>;
          st3 = st2\<lparr>time_ZtW := elapsed ev iteration Op_ZtW,
                     YtAYU := evectmatrix_XtY ev (Y st2) (Work st2 G_ix)\<rparr>;
          st4 = st3\<lparr>E := SCALAR_RE ev (sqmatrix_trace ev (YtAYU st3))\<rparr>
      in if BADNUM ev (E st4) then Inl Crazy_number else Inr st4)"

text \<open>Lines 395--397: the convergence test that leaves the loop.\<close>

definition converged :: "nat \<Rightarrow> real \<Rightarrow> real \<Rightarrow> real \<Rightarrow> bool" where
  "converged iteration tol e prev_e \<longleftrightarrow>
     iteration > 0 \<and> \<bar>e - prev_e\<bar> < tol * 0.5 * (e + prev_e + 0.0000001)"

text \<open>Lines 399--407: the progress line.\<close>

definition feedback ::
  "('a, 'm) env \<Rightarrow> ('a, 'm) args \<Rightarrow> nat \<Rightarrow> ('a, 'm) state \<Rightarrow> ('a, 'm) state"
where
  "feedback ev a iteration st =
     (if flag_set (flags a) (EIGS_VERBOSE ev) \<or> feedback_due ev iteration
      then say (Msg_iteration (iteration + 1) (E st)) st else st)"

text \<open>Lines 410--427: the gradient \<open>G\<close> and the preconditioned gradient \<open>X\<close>.\<close>

definition gradient :: "('a, 'm) env \<Rightarrow> ('a, 'm) state \<Rightarrow> ('a, 'm) state" where
  "gradient ev st =
     (let st1 = st\<lparr>S1 := sqmatrix_AeBC ev (U st) False (YtAYU st) False\<rparr>
      in st1\<lparr>Work := (Work st1)
                (G_ix := set_data (Work st1 G_ix)
                   (evectmatrix_XpaYS ev (Work st1 G_ix) (-1.0) (Y st1) (S1 st1)))\<rparr>)"

definition precondition ::
  "('a, 'm) env \<Rightarrow> ('a, 'm) args \<Rightarrow> nat \<Rightarrow> ('a, 'm) state \<Rightarrow> ('a, 'm) state"
where
  "precondition ev a iteration st =
     (let st1 = (case K a of
                   Some k \<Rightarrow>
                     st\<lparr>time_KZ := elapsed ev iteration Op_KZ,
                        Work := (Work st)(X_ix := set_data (Work st X_ix)
                                   (k (Work st G_ix) (Work st X_ix) (Y st) (YtY st)))\<rparr>
                 | None \<Rightarrow>
                     st\<lparr>Work := (Work st)
                           (X_ix := set_data (Work st X_ix)
                              (evectmatrix_copy ev (Work st X_ix) (Work st G_ix)))\<rparr>)
      in
      if flag_set (flags a) (EIGS_PROJECT_PRECONDITIONING ev) then
        let st2 = st1\<lparr>symYtD := evectmatrix_XtY ev (Y st1) (Work st1 X_ix)\<rparr>;
            st3 = st2\<lparr>S1 := sqmatrix_AeBC ev (U st2) False (symYtD st2) False\<rparr>
        in st3\<lparr>Work := (Work st3)
                  (X_ix := set_data (Work st3 X_ix)
                     (evectmatrix_XpaYS ev (Work st3 X_ix) (-1.0) (Y st3) (S1 st3)))\<rparr>
      else st1)"

text \<open>
  Lines 441--445, the fused pass of Polak-Ribiere, run on the work blocks themselves.
  To tell which cells the pass touches, the memory of the loop is the array \<^verbatim>\<open>Work[]\<close>
  together with the list of the accesses made so far. A cell is named by the index of
  its block in \<^verbatim>\<open>Work[]\<close> and its offset in \<^verbatim>\<open>data\<close>; an access is a read (\<open>Rd\<close>), a
  plain assignment (\<open>Wr\<close>) or a compound assignment (\<open>Upd\<close>, which reads and writes its
  target). Modelled from the spec: \<^verbatim>\<open>ACCUMULATE_DIFF(a, b)\<close> of \<^verbatim>\<open>scalar.h\<close> is \<^verbatim>\<open>a -= b\<close>.
\<close>

datatype access = Rd nat nat | Upd nat nat | Wr nat nat

type_synonym 'a memory = "(nat \<Rightarrow> 'a evectmatrix) \<times> access list"

definition read_cell :: "nat \<Rightarrow> nat \<Rightarrow> 'a memory \<Rightarrow> 'a \<times> 'a memory" where
  "read_cell b i m = (em_data (fst m b) i, (fst m, snd m @ [Rd b i]))"

definition write_cell :: "nat \<Rightarrow> nat \<Rightarrow> 'a \<Rightarrow> 'a memory \<Rightarrow> 'a memory" where
  "write_cell b i v m =
     ((fst m)(b := set_data (fst m b) ((em_data (fst m b))(i := v))), snd m @ [Wr b i])"

definition ACCUMULATE_DIFF :: "nat \<Rightarrow> nat \<Rightarrow> nat \<Rightarrow> nat \<Rightarrow> ('a::minus) memory \<Rightarrow> 'a memory" where
  "ACCUMULATE_DIFF b i b' i' m =
     (let v = em_data (fst m b) i - em_data (fst m b') i'
      in ((fst m)(b := set_data (fst m b) ((em_data (fst m b))(i := v))),
          snd m @ [Rd b' i', Upd b i]))"

text \<open>
  The body of the loop at index \<open>i\<close>, with \<open>G\<close> and \<open>prev_G\<close> given by their indices in
  \<^verbatim>\<open>Work[]\<close>: \<^verbatim>\<open>scalar g = G.data[i]; ACCUMULATE_DIFF(G.data[i], prev_G.data[i]);
  prev_G.data[i] = g;\<close>. The scalar \<open>g\<close> is the only storage besides the memory.
\<close>

definition pr_step :: "nat \<Rightarrow> nat \<Rightarrow> nat \<Rightarrow> ('a::minus) memory \<Rightarrow> 'a memory" where
  "pr_step G_at prev_G_at i m =
     (let (g, m1) = read_cell G_at i m;
          m2 = ACCUMULATE_DIFF G_at i prev_G_at i m1
      in write_cell prev_G_at i g m2)"

text \<open>\<^verbatim>\<open>for (i = 0; i < N; ++i)\<close> with that body.\<close>

definition pr_fused :: "nat \<Rightarrow> nat \<Rightarrow> nat \<Rightarrow> ('a::minus) memory \<Rightarrow> 'a memory" where
  "pr_fused G_at prev_G_at N m = fold (pr_step G_at prev_G_at) [0..<N] m"

text \<open>
  Lines 437--449: the numerator of \<open>gamma\<close>; for Polak-Ribiere after the fused pass over
  the \<open>Y.n * Y.p\<close> scalars, computed on the \<open>G\<close> that the pass leaves.
\<close>

definition gamma_numerator_pass ::
  "('a::minus, 'm) env \<Rightarrow> ('a, 'm) args \<Rightarrow> ('a, 'm) state \<Rightarrow> real \<times> ('a, 'm) state"
where
  "gamma_numerator_pass ev a st =
     (if use_polak_ribiere a then
        let st1 = st\<lparr>Work := fst (pr_fused G_ix (prev_G_ix a) (em_n (Y st) * em_p (Y st))
                                       (Work st, []))\<rparr>
        in (SCALAR_RE ev (evectmatrix_traceXtY ev (Work st1 G_ix) (Work st1 X_ix)), st1)
      else (traceGtX st, st))"

text \<open>Lines 451--463: \<open>gamma\<close> from its numerator, and the periodic reset.\<close>

definition cg_reset :: "('a, 'm) env \<Rightarrow> ('a, 'm) args \<Rightarrow> nat \<Rightarrow> bool" where
  "cg_reset ev a iteration \<longleftrightarrow>
     flag_set (flags a) (EIGS_RESET_CG ev) \<and> (iteration + 1) mod CG_RESET_ITERS = 0"

definition cg_gamma :: "('a, 'm) env \<Rightarrow> ('a, 'm) args \<Rightarrow> nat \<Rightarrow> real \<Rightarrow> real \<Rightarrow> real" where
  "cg_gamma ev a iteration gamma_numerator prev_tgx =
     (let gamma = (if prev_tgx = 0.0 then 0.0 else gamma_numerator / prev_tgx)
      in if cg_reset ev a iteration then 0.0 else gamma)"

text \<open>Lines 433--466: \<open>traceGtX\<close> and the new search direction \<open>D\<close>.\<close>

definition cg_direction ::
  "('a::minus, 'm) env \<Rightarrow> ('a, 'm) args \<Rightarrow> nat \<Rightarrow> ('a, 'm) state \<Rightarrow> ('a, 'm) state"
where
  "cg_direction ev a iteration st =
     (let st1 = st\<lparr>traceGtX :=
                     SCALAR_RE ev (evectmatrix_traceXtY ev (Work st G_ix) (Work st X_ix))\<rparr>
      in
      if usingConjugateGradient a then
        let (gamma_numerator, st2) = gamma_numerator_pass ev a st1;
            gamma = cg_gamma ev a iteration gamma_numerator (prev_traceGtX st2);
            st3 = (if cg_reset ev a iteration \<and> flag_set (flags a) (EIGS_VERBOSE ev)
                   then say Msg_resetting_CG st2 else st2)
        in st3\<lparr>Work := (Work st3)
                  (D_ix a := set_data (Work st3 (D_ix a))
                     (evectmatrix_aXpbY ev gamma (Work st3 (D_ix a)) 1.0 (Work st3 X_ix)))\<rparr>
      else st1)"

subsection \<open>Approximate line minimisation (lines 470--523)\<close>

text \<open>
  Lines 481--496: \<open>d_norm\<close>, the derivative \<open>dE\<close>, the probe \<open>t\<close>, the shift of \<open>Y\<close> by
  \<open>t\<close> along \<open>D\<close> and the trace \<open>E2\<close> there. The result is \<open>(dE, t, E2)\<close> and the state.
\<close>

definition approx_probe ::
  "('a, 'm) env \<Rightarrow> ('a, 'm) args \<Rightarrow> ('a, 'm) state \<Rightarrow> error + (real \<times> real \<times> real) \<times> ('a, 'm) state"
where
  "approx_probe ev a st =
     (let p = em_p (Y st);
          dd = SCALAR_RE ev (evectmatrix_traceXtY ev (Work st (D_ix a)) (Work st (D_ix a)))
      in
      if p = 0 \<or> dd / real p < 0 then Inl Not_real
      else
        let st1 = st\<lparr>d_norm := sqrt (dd / real p)\<rparr> in
        if d_norm st1 = 0 then Inl Not_real
        else
          let dE = 2.0 * SCALAR_RE ev (evectmatrix_traceXtY ev (Work st1 (prev_G_ix a))
                                         (Work st1 (D_ix a))) / d_norm st1;
              t = (if dE < 0 then - \<bar>prev_theta st1\<bar> else \<bar>prev_theta st1\<bar>);
              st2 = st1\<lparr>Y := set_data (Y st1)
                       (evectmatrix_aXpbY ev 1.0 (Y st1) (t / d_norm st1) (Work st1 (D_ix a)))\<rparr>;
              st3 = st2\<lparr>U := sqmatrix_invert ev (evectmatrix_XtX ev (Y st2))\<rparr>;
              (ay, scratch) = A a (Y st3) True (Work st3 G_ix) (Work st3 X_ix);
              st4 = st3\<lparr>Work := (Work st3)(G_ix := set_data (Work st3 G_ix) ay,
                                             X_ix := set_data (Work st3 X_ix) scratch)\<rparr>;
              st5 = st4\<lparr>S1 := evectmatrix_XtY ev (Y st4) (Work st4 G_ix)\<rparr>;
              E2 = SCALAR_RE ev (sqmatrix_traceAtB ev (S1 st5) (U st5))
          in Inr ((dE, t, E2), st5))"

text \<open>Lines 501--503: the finite-difference second derivative and the Newton step.\<close>

definition approx_newton ::
  "real \<Rightarrow> real \<Rightarrow> real \<Rightarrow> ('a, 'm) state \<Rightarrow> error + real \<times> ('a, 'm) state"
where
  "approx_newton dE t E2 st =
     (if 0.5 * t * t = 0 then Inl Not_real
      else
        let d2E = (E2 - E st - dE * t) / (0.5 * t * t) in
        if d2E = 0 then Inl Not_real
        else Inr (d2E, st\<lparr>theta := - dE / d2E\<rparr>))"

text \<open>Lines 511--522: back to the exact line minimisation, or the shift of \<open>Y\<close> by \<open>theta\<close>.\<close>

definition approx_step ::
  "('a, 'm) env \<Rightarrow> ('a, 'm) args \<Rightarrow> real \<Rightarrow> real \<Rightarrow> real \<Rightarrow> ('a, 'm) state \<Rightarrow> ('a, 'm) state"
where
  "approx_step ev a dE d2E t st =
     (if d2E < 0 \<or> -0.5 * dE * theta st > 20.0 * \<bar>E st - prev_E st\<bar> then
        let st1 = (if flag_set (flags a) (EIGS_VERBOSE ev)
                   then say Msg_switching_back_to_exact st else st);
            st2 = say (Msg_dE dE d2E (theta st1)) st1;
            st3 = st2\<lparr>use_linmin := True\<rparr>
        in st3\<lparr>Y := set_data (Y st3)
                  (evectmatrix_aXpbY ev 1.0 (Y st3) (- t / d_norm st3) (Work st3 (D_ix a)))\<rparr>
      else
        st\<lparr>Y := set_data (Y st)
                (evectmatrix_aXpbY ev 1.0 (Y st) ((theta st - t) / d_norm st) (Work st (D_ix a)))\<rparr>)"

definition approx_linmin ::
  "('a, 'm) env \<Rightarrow> ('a, 'm) args \<Rightarrow> ('a, 'm) state \<Rightarrow> error + ('a, 'm) state"
where
  "approx_linmin ev a st =
     (case approx_probe ev a st of
        Inl e \<Rightarrow> Inl e
      | Inr ((dE, t, E2), st1) \<Rightarrow>
          (case approx_newton dE t E2 st1 of
             Inl e \<Rightarrow> Inl e
           | Inr (d2E, st2) \<Rightarrow> Inr (approx_step ev a dE d2E t st2)))"

subsection \<open>Exact line minimisation (lines 524--584)\<close>

text \<open>
  Lines 528--551: \<open>G = AD\<close>, the small matrices along \<open>D\<close>, and the derivatives \<open>dE\<close> and
  \<open>d2E\<close> of the trace at \<open>theta = 0\<close>. The result is \<open>(dE, d2E)\<close> and the state.
\<close>

definition exact_derivatives ::
  "('a, 'm) env \<Rightarrow> ('a, 'm) args \<Rightarrow> ('a, 'm) state \<Rightarrow> error + (real \<times> real) \<times> ('a, 'm) state"
where
  "exact_derivatives ev a st =
     (let (ad, scratch) = A a (Work st (D_ix a)) False (Work st G_ix) (Work st X_ix);
          st1 = st\<lparr>Work := (Work st)(G_ix := set_data (Work st G_ix) ad,
                                        X_ix := set_data (Work st X_ix) scratch)\<rparr>;
          st2 = st1\<lparr>DtD := evectmatrix_XtX ev (Work st1 (D_ix a))\<rparr>;
          p = em_p (Y st2)
      in
      if p = 0 \<or> SCALAR_RE ev (sqmatrix_trace ev (DtD st2)) / real p < 0 then Inl Not_real
      else
        let d_norm2 = SCALAR_RE ev (sqmatrix_trace ev (DtD st2)) / real p;
            st3 = st2\<lparr>d_norm := sqrt d_norm2\<rparr>;
            st4 = st3\<lparr>DtAD := evectmatrix_XtY ev (Work st3 (D_ix a)) (Work st3 G_ix)\<rparr>;
            st5 = st4\<lparr>S1 := evectmatrix_XtY ev (Y st4) (Work st4 (D_ix a))\<rparr>;
            st6 = st5\<lparr>symYtD := sqmatrix_symmetrize ev (S1 st5)\<rparr>;
            st7 = st6\<lparr>S1 := evectmatrix_XtY ev (Y st6) (Work st6 G_ix)\<rparr>;
            st8 = st7\<lparr>symYtAD := sqmatrix_symmetrize ev (S1 st7)\<rparr>;
            st9 = st8\<lparr>S1 := sqmatrix_AeBC ev (U st8) False (symYtD st8) True\<rparr>
        in
        if d_norm st9 = 0 \<or> d_norm2 = 0 then Inl Not_real
        else
          let dE = 2.0 * (SCALAR_RE ev (sqmatrix_traceAtB ev (U st9) (symYtAD st9)) -
                          SCALAR_RE ev (sqmatrix_traceAtB ev (YtAYU st9) (S1 st9))) / d_norm st9;
              st10 = st9\<lparr>S2 := DtD st9\<rparr>;
              st11 = st10\<lparr>S2 := sqmatrix_ApaBC ev (S2 st10) (-4.0) (symYtD st10) False (S1 st10) False\<rparr>;
              st12 = st11\<lparr>S3 := sqmatrix_AeBC ev (symYtAD st11) False (S1 st11) False\<rparr>;
              st13 = st12\<lparr>S1 := sqmatrix_AeBC ev (U st12) False (S2 st12) True\<rparr>;
              d2E = 2.0 * (SCALAR_RE ev (sqmatrix_traceAtB ev (U st13) (DtAD st13)) -
                           SCALAR_RE ev (sqmatrix_traceAtB ev (YtAYU st13) (S1 st13)) -
                           4.0 * SCALAR_RE ev (sqmatrix_traceAtB ev (U st13) (S3 st13))) / d_norm2
          in Inr ((dE, d2E), st13))"

text \<open>
  Lines 555--571: the Newton estimate \<open>theta = -dE/d2E\<close> and its safeguards. The caller
  has excluded \<open>d2E = 0\<close>.
\<close>

definition downhill :: "real \<Rightarrow> real \<Rightarrow> real" where
  "downhill dE prev_th = (if dE > 0 then - \<bar>prev_th\<bar> else \<bar>prev_th\<bar>)"

definition safeguard_theta ::
  "('a, 'm) env \<Rightarrow> ('a, 'm) args \<Rightarrow> real \<Rightarrow> real \<Rightarrow> ('a, 'm) state \<Rightarrow> ('a, 'm) state"
where
  "safeguard_theta ev a dE d2E st =
     (let verbose = flag_set (flags a) (EIGS_VERBOSE ev);
          st1 = st\<lparr>theta := - dE / d2E\<rparr>;
          st2 = (if d2E < 0 then
                   (let st' = (if verbose then say Msg_near_maximum st1 else st1)
                    in st'\<lparr>theta := downhill dE (prev_theta st')\<rparr>)
                 else if -0.5 * dE * theta st1 > 2.0 * \<bar>E st1 - prev_E st1\<bar> then
                   (if verbose then say Msg_large_trace_change st1 else st1)
                 else st1)
      in
      if \<bar>theta st2\<bar> \<ge> K_PI then
        (let st' = (if verbose then say (Msg_large_theta (theta st2)) st2 else st2)
         in st'\<lparr>theta := downhill dE (prev_theta st')\<rparr>)
      else st2)"

text \<open>
  Lines 575--583: \<open>S1 = YtAY\<close>, the call of \<^verbatim>\<open>linmin\<close> on \<^verbatim>\<open>trace_func\<close> and the rotation
  of \<open>Y\<close>. \<^verbatim>\<open>trace_func\<close> uses \<^verbatim>\<open>YtAYU\<close>, \<^verbatim>\<open>S2\<close> and \<^verbatim>\<open>S3\<close> as scratch; the driver writes
  each of them again before it reads it, so the model leaves them as they are.
\<close>

definition exact_minimize ::
  "('a, 'm) env \<Rightarrow> ('a, 'm) args \<Rightarrow> nat \<Rightarrow> real \<Rightarrow> ('a, 'm) state \<Rightarrow> ('a, 'm) state res"
where
  "exact_minimize ev a iteration dE st =
     (let st1 = st\<lparr>S1 := sqmatrix_AeBC ev (YtAYU st) False (YtY st) True\<rparr>;
          tfd = \<lparr>tfd_d_norm = d_norm st1, tfd_YtAY = S1 st1, tfd_DtAD = DtAD st1,
                 tfd_symYtAD = symYtAD st1, tfd_YtY = YtY st1, tfd_DtD = DtD st1,
                 tfd_symYtD = symYtD st1\<rparr>
      in
      case linmin 0 (E st1) dE (if dE > 0 then - K_PI else K_PI) (theta st1) (tolerance a)
             (trace_func ev tfd) of
        None \<Rightarrow> None
      | Some (Inl e) \<Rightarrow> Some (Inl e)
      | Some (Inr (th, improvement)) \<Rightarrow>
          let st2 = st1\<lparr>time_linmin := elapsed ev iteration Op_linmin, theta := th,
                        linmin_improvement := improvement\<rparr>
          in Some (Inr (st2\<lparr>Y := set_data (Y st2)
                                    (evectmatrix_aXpbY ev (cos (theta st2)) (Y st2)
                                       (sin (theta st2) / d_norm st2) (Work st2 (D_ix a)))\<rparr>)))"

definition exact_linmin ::
  "('a, 'm) env \<Rightarrow> ('a, 'm) args \<Rightarrow> nat \<Rightarrow> ('a, 'm) state \<Rightarrow> ('a, 'm) state res"
where
  "exact_linmin ev a iteration st =
     (case exact_derivatives ev a st of
        Inl e \<Rightarrow> Some (Inl e)
      | Inr ((dE, d2E), st1) \<Rightarrow>
          if d2E = 0 then Some (Inl Not_real)
          else exact_minimize ev a iteration dE (safeguard_theta ev a dE d2E st1))"

text \<open>Lines 470--584: the two strategies in sequence, each under its test of \<^verbatim>\<open>use_linmin\<close>.\<close>

definition line_minimize ::
  "('a, 'm) env \<Rightarrow> ('a, 'm) args \<Rightarrow> nat \<Rightarrow> ('a, 'm) state \<Rightarrow> ('a, 'm) state res"
where
  "line_minimize ev a iteration st =
     (case (if \<not> use_linmin st then approx_linmin ev a st else Inr st) of
        Inl e \<Rightarrow> Some (Inl e)
      | Inr st1 \<Rightarrow> if use_linmin st1 then exact_linmin ev a iteration st1 else Some (Inr st1))"

subsection \<open>End of the iteration (lines 586--621)\<close>

definition apply_constraint :: "('a, 'm) args \<Rightarrow> ('a, 'm) state \<Rightarrow> ('a, 'm) state" where
  "apply_constraint a st =
     (case constraint a of None \<Rightarrow> st | Some c \<Rightarrow> st\<lparr>Y := set_data (Y st) (c (Y st))\<rparr>)"

definition record_previous :: "('a, 'm) state \<Rightarrow> ('a, 'm) state" where
  "record_previous st = st\<lparr>prev_traceGtX := traceGtX st, prev_theta := theta st, prev_E := E st\<rparr>"

text \<open>Lines 596--604: the two time estimates \<open>(t_exact, t_approx)\<close>.\<close>

definition time_estimates :: "('a, 'm) env \<Rightarrow> ('a, 'm) args \<Rightarrow> ('a, 'm) state \<Rightarrow> real \<times> real" where
  "time_estimates ev a st =
     (let t_exact = EXACT_LINMIN_TIME (time_AZ st) (time_KZ st) (time_ZtW st)
                      (time_ZS st) (time_ZtZ st) (time_linmin st);
          t_approx = APPROX_LINMIN_TIME (time_AZ st) (time_KZ st) (time_ZtW st)
                       (time_ZS st) (time_ZtZ st)
      in
      if flag_set (flags a) (EIGS_PROJECT_PRECONDITIONING ev)
      then (t_exact + (time_ZtW st + time_ZS st), t_approx + (time_ZtW st + time_ZS st))
      else (t_exact, t_approx))"

text \<open>Lines 605--620: the choice of the strategy for the next iteration.\<close>

definition choose_strategy ::
  "('a, 'm) env \<Rightarrow> ('a, 'm) args \<Rightarrow> ('a, 'm) state \<Rightarrow> ('a, 'm) state"
where
  "choose_strategy ev a st =
     (let (t_exact, t_approx) = time_estimates ev a st;
          verbose = flag_set (flags a) (EIGS_VERBOSE ev)
      in
      if \<not> flag_set (flags a) (EIGS_FORCE_EXACT_LINMIN ev) \<and>
         linmin_improvement st > 0 \<and>
         linmin_improvement st \<le> APPROX_LINMIN_IMPROVEMENT_THRESHOLD \<and>
         t_exact > t_approx * APPROX_LINMIN_SLOWDOWN_GUESS
      then
        (let st1 = (if verbose \<and> use_linmin st then say Msg_switching_to_approximate st else st)
         in st1\<lparr>use_linmin := False\<rparr>)
      else
        (let st1 = (if verbose \<and> \<not> use_linmin st then say Msg_switching_back_to_exact st else st)
         in st1\<lparr>use_linmin := True\<rparr>))"

subsection \<open>The loop and the driver\<close>

text \<open>An iteration ends by \<^verbatim>\<open>break\<close> or reaches the end of the loop body.\<close>

datatype ('a, 'm) step = Break "('a, 'm) state" | Continue "('a, 'm) state"

definition step_state :: "('a, 'm) step \<Rightarrow> ('a, 'm) state" where
  "step_state sp = (case sp of Break st \<Rightarrow> st | Continue st \<Rightarrow> st)"

definition iteration_body ::
  "('a::minus, 'm) env \<Rightarrow> ('a, 'm) args \<Rightarrow> nat \<Rightarrow> ('a, 'm) state \<Rightarrow> ('a, 'm) step res"
where
  "iteration_body ev a iteration st =
     (case normalize ev iteration (force_approx ev a st) of
        Inl e \<Rightarrow> Some (Inl e)
      | Inr st1 \<Rightarrow>
          (case apply_operator ev a iteration st1 of
             Inl e \<Rightarrow> Some (Inl e)
           | Inr st2 \<Rightarrow>
               if converged iteration (tolerance a) (E st2) (prev_E st2)
               then Some (Inr (Break st2))
               else
                 (case line_minimize ev a iteration
                         (cg_direction ev a iteration
                            (precondition ev a iteration
                               (gradient ev (feedback ev a iteration st2)))) of
                    None \<Rightarrow> None
                  | Some (Inl e) \<Rightarrow> Some (Inl e)
                  | Some (Inr st3) \<Rightarrow>
                      Some (Inr (Continue
                        (choose_strategy ev a (record_previous (apply_constraint a st3))))))))"

text \<open>
  \<^verbatim>\<open>do { ... } while (++iteration < EIGENSOLVER_MAX_ITERATIONS)\<close>. The result is the value
  of \<^verbatim>\<open>iteration\<close> when the loop is left, with the way it is left: an abort inside the
  body, the \<^verbatim>\<open>break\<close>, or the loop condition (\<open>Continue\<close> with the state after the last
  body).
\<close>

function driver_loop ::
  "('a::minus, 'm) env \<Rightarrow> ('a, 'm) args \<Rightarrow> nat \<Rightarrow> ('a, 'm) state \<Rightarrow>
     (nat \<times> (error + ('a, 'm) step)) option"
where
  "driver_loop ev a iteration st =
     (case iteration_body ev a iteration st of
        None \<Rightarrow> None
      | Some (Inl e) \<Rightarrow> Some (iteration, Inl e)
      | Some (Inr (Break st')) \<Rightarrow> Some (iteration, Inr (Break st'))
      | Some (Inr (Continue st')) \<Rightarrow>
          if iteration + 1 < EIGENSOLVER_MAX_ITERATIONS
          then driver_loop ev a (iteration + 1) st'
          else Some (iteration + 1, Inr (Continue st')))"
  by pat_completeness auto
termination
  by (relation "measure (\<lambda>(ev, a, iteration, st). EIGENSOLVER_MAX_ITERATIONS - iteration)") auto

declare driver_loop.simps [simp del]

text \<open>
  Lines 624--634, after the loop: the check of the iteration count, the final
  \<open>U = 1/(YtY)\<close> and \<^verbatim>\<open>eigensolver_get_eigenvals_aux\<close>, which writes \<^verbatim>\<open>Y\<close>, \<^verbatim>\<open>eigenvals\<close> and
  its two work blocks; the matrices \<^verbatim>\<open>S1\<close> and \<^verbatim>\<open>S2\<close> that it receives as work space
  (\<^verbatim>\<open>Usqrt\<close>, \<^verbatim>\<open>Uwork\<close>) are destroyed right after. The result is \<^verbatim>\<open>*num_iterations\<close> and
  the memory.
\<close>

definition finish ::
  "('a, 'm) env \<Rightarrow> ('a, 'm) args \<Rightarrow> nat \<Rightarrow> ('a, 'm) state \<Rightarrow> error + nat \<times> ('a, 'm) state"
where
  "finish ev a iteration st =
     (if \<not> iteration < EIGENSOLVER_MAX_ITERATIONS then Inl Failure_to_converge
      else
        let st1 = st\<lparr>U := sqmatrix_invert ev (evectmatrix_XtX ev (Y st))\<rparr>;
            (y, evals, x, g) = eigensolver_get_eigenvals_aux ev (Y st1) (eigenvals st1) (A a)
                                 (Work st1 X_ix) (Work st1 G_ix) (U st1)
        in Inr (iteration, st1\<lparr>Y := set_data (Y st1) y, eigenvals := evals,
                                Work := (Work st1)(X_ix := set_data (Work st1 X_ix) x,
                                                   G_ix := set_data (Work st1 G_ix) g)\<rparr>))"

definition eigensolver ::
  "('a::{zero,minus}, 'm) env \<Rightarrow> ('a, 'm) args \<Rightarrow> ('a, 'm) state \<Rightarrow> (nat \<times> ('a, 'm) state) res"
where
  "eigensolver ev a st0 =
     (case eigensolver_init a st0 of
        Inl e \<Rightarrow> Some (Inl e)
      | Inr st \<Rightarrow>
          (case driver_loop ev a 0 st of
             None \<Rightarrow> None
           | Some (iteration, Inl e) \<Rightarrow> Some (Inl e)
           | Some (iteration, Inr (Break st')) \<Rightarrow> Some (finish ev a iteration st')
           | Some (iteration, Inr (Continue st')) \<Rightarrow> Some (finish ev a iteration st')))"

section \<open>Test inputs\<close>

text \<open>
  Three callbacks for \<^verbatim>\<open>linmin\<close>, used to run the model on concrete inputs: a function
  whose derivative is \<open>-1\<close> everywhere, one whose derivative is \<open>1\<close> everywhere, and one
  whose derivative is positive only at \<open>x = 4\<close>.
\<close>

definition falling :: linfunc where
  "falling x = Inr (0, -1)"

definition rising :: linfunc where
  "rising x = Inr (0, 1)"



text \<open>
  A test double for the collaborators of the driver, with real scalars and real numbers
  in place of the square matrices (\<open>p = 1\<close>). Its primitives return fixed values, chosen
  so that an iteration can be computed by hand: \<open>X\<^sup>\<dagger>X = 1\<close> and \<open>X\<^sup>\<dagger>Z = e\<close> for all blocks
  (so the trace is \<open>E = e\<close>), \<open>tr(X\<^sup>\<dagger>Z) = 1\<close>, and \<open>e2\<close> for every product trace
  \<open>tr(A\<^sup>\<dagger>B)\<close> of small matrices. The flag masks are those of \<^verbatim>\<open>eigensolver.h\<close>.
\<close>

definition stub_env :: "real \<Rightarrow> real \<Rightarrow> (real, real) env" where
  "stub_env e e2 =
     \<lparr>EIGS_VERBOSE = 1, EIGS_PROJECT_PRECONDITIONING = 2, EIGS_RESET_CG = 4,
      EIGS_FORCE_EXACT_LINMIN = 8, EIGS_FORCE_APPROX_LINMIN = 16,
      BADNUM = (\<lambda>x. \<not> \<bar>x\<bar> \<le> 1000000),
      SCALAR_RE = (\<lambda>x. x),
      elapsed = (\<lambda>i op. if op = Op_linmin then 10 else 1),
      feedback_due = (\<lambda>i. False),
      blasglue_scal = (\<lambda>N c d i. if i < N then c * d i else d i),
      blasglue_scal_sq = (\<lambda>N c m. c * m),
      evectmatrix_XtX = (\<lambda>X. 1),
      evectmatrix_XtY = (\<lambda>X Z. e),
      evectmatrix_XeYS = (\<lambda>X Z S h. em_data Z),
      evectmatrix_XpaYS = (\<lambda>X c Z S. em_data X),
      evectmatrix_aXpbY = (\<lambda>c X d Z i. c * em_data X i + d * em_data Z i),
      evectmatrix_copy = (\<lambda>X Z. em_data Z),
      evectmatrix_traceXtY = (\<lambda>X Z. 1),
      sqmatrix_trace = (\<lambda>m. m),
      sqmatrix_traceAtB = (\<lambda>m m'. e2),
      sqmatrix_invert = (\<lambda>m. 1 / m),
      sqmatrix_symmetrize = (\<lambda>m. m),
      sqmatrix_AeBC = (\<lambda>m h m' h'. m * m'),
      sqmatrix_ApaBC = (\<lambda>m0 c m h m' h'. m0 + c * m * m'),
      sqmatrix_aApbB = (\<lambda>c m d m'. c * m + d * m'),
      sqmatrix_ApaB = (\<lambda>m c m'. m + c * m'),
      eigensolver_get_eigenvals_aux = (\<lambda>X ev op W1 W2 m. (em_data X, ev, em_data W1, em_data W2))\<rparr>"

definition stub_args :: "int \<Rightarrow> int \<Rightarrow> real \<Rightarrow> (real, real) args" where
  "stub_args nw fl tol =
     \<lparr>A = (\<lambda>Xin cur Xout W. (em_data Xin, em_data W)), K = None, constraint = None,
      nWork = nw, tolerance = tol, flags = fl\<rparr>"

definition stub_block :: "real evectmatrix" where
  "stub_block = \<lparr>em_n = 1, em_p = 1, em_data = (\<lambda>i. 1)\<rparr>"

definition stub_state :: "(real, real) state" where
  "stub_state =
     \<lparr>Y = stub_block, Work = (\<lambda>k. stub_block), eigenvals = (\<lambda>i. 7),
      use_linmin = False, E = 0, prev_E = 0, traceGtX = 0, prev_traceGtX = 0,
      theta = 0, prev_theta = 0, d_norm = 0,
      time_AZ = 0, time_KZ = 0, time_ZtZ = 0, time_ZtW = 0, time_ZS = 0, time_linmin = 0,
      linmin_improvement = 0,
      YtAYU = 0, DtAD = 0, symYtAD = 0, YtY = 0, U = 0, DtD = 0, symYtD = 0,
      S1 = 0, S2 = 0, S3 = 0, printed = []\<rparr>"


text \<open>
  A second test double, in which the iteration never settles: scaling a block and
  every linear combination give the first block negated, \<open>X\<^sup>\<dagger>Z\<close> is the first entry of
  \<open>X\<close>, and \<open>tr(A\<^sup>\<dagger>B)\<close> is \<open>3/2 - A\<close>. With it the trace \<open>E\<close> is the first entry of \<open>Y\<close> and
  changes sign in every iteration.
\<close>

definition flip_env :: "(real, real) env" where
  "flip_env =
     (stub_env 1 3)\<lparr>blasglue_scal := (\<lambda>N c d i. - d i),
                     evectmatrix_aXpbY := (\<lambda>c X d Z i. - em_data X i),
                     evectmatrix_XtY := (\<lambda>X Z. em_data X 0),
                     sqmatrix_traceAtB := (\<lambda>m m'. 3/2 - m)\<rparr>"

text \<open>
  The states at the start of the iterations \<open>0, 1, 2, \<dots>\<close> of a run that goes on from
  one iteration to the next.
\<close>

fun run_states ::
  "('a::minus, 'm) env \<Rightarrow> ('a, 'm) args \<Rightarrow> ('a, 'm) state \<Rightarrow> nat \<Rightarrow> ('a, 'm) state"
where
  "run_states ev a st 0 = st"
| "run_states ev a st (Suc j) =
     (case iteration_body ev a j (run_states ev a st j) of
        Some (Inr (Continue st')) \<Rightarrow> st'
      | _ \<Rightarrow> run_states ev a st j)"

declare run_states.simps [simp del]

text \<open>
  What the states of a run of the second test double have in common: \<open>Y\<close> has one
  column, its first entry and the recorded trace are as the sign changes leave them,
  and the recorded step is \<open>1/2\<close> in size.
\<close>

definition flip_inv :: "(real, real) state \<Rightarrow> bool" where
  "flip_inv s \<longleftrightarrow> em_p (Y s) = 1 \<and>
     (em_data (Y s) 0 = 1 \<and> prev_theta s = 1/2 \<and> prev_E s = 0 \<or>
      em_data (Y s) 0 = -1 \<and> prev_theta s = -1/2 \<and> prev_E s = -1 \<or>
      em_data (Y s) 0 = 1 \<and> prev_theta s = -1/2 \<and> prev_E s = 1)"
text \<open>
  A memory with four work blocks of two scalars each, for the direction update:
  \<open>G = (5, 7)\<close>, \<open>X = (1, 1)\<close>, \<open>D = (2, 3)\<close> and \<open>prev_G = (1, 2)\<close>.
\<close>

definition cg_block :: "real \<Rightarrow> real \<Rightarrow> real evectmatrix" where
  "cg_block u v = \<lparr>em_n = 2, em_p = 1, em_data = (\<lambda>i. if i = 0 then u else v)\<rparr>"

definition cg_state :: "(real, real) state" where
  "cg_state =
     stub_state\<lparr>Y := cg_block 1 0,
                Work := (\<lambda>k. if k = 0 then cg_block 5 7 else if k = 1 then cg_block 1 1
                               else if k = 2 then cg_block 2 3 else cg_block 1 2),
                prev_traceGtX := 4\<rparr>"


text \<open>
  Arguments whose operator uses its work block: it returns its input as the product
  and leaves 42 in every scalar of the block it was given as scratch.
\<close>

definition scribbling_args :: "int \<Rightarrow> (real, real) args" where
  "scribbling_args nw =
     (stub_args nw 16 (1/1000))\<lparr>A := (\<lambda>Xin cur Xout W. (em_data Xin, (\<lambda>i. 42)))\<rparr>"
section \<open>Properties of \<^verbatim>\<open>linmin\<close>\<close>

subsection \<open>The precondition checks\<close>


text \<open>
  Claim C8. When \<open>df_xmin * (x0 - xmin) \<ge> 0\<close>, or when \<open>x0\<close> is not strictly between
  \<open>xmin\<close> and \<open>xmax\<close>, \<^verbatim>\<open>linmin\<close> aborts: with "bad initial guess" in the first case and
  with "initial guess out of range" otherwise. The outcome is the same for every
  callback \<open>func\<close>, every \<open>f_xmin\<close> and every tolerance: no bracketing step is taken.
\<close>

theorem linmin_precondition_failure:
  assumes "df_xmin * (x0 - xmin) \<ge> 0 \<or>
           \<not> ((xmin < x0 \<and> x0 < xmax) \<or> (xmax < x0 \<and> x0 < xmin))"
  shows "linmin xmin f_xmin df_xmin xmax x0 tol func =
           Some (Inl (if df_xmin * (x0 - xmin) \<ge> 0 then Bad_initial_guess
                      else Guess_out_of_range))"
  using assms
  by (auto simp: linmin_def linmin_precheck_def linmin_direction_def Let_def)

theorem linmin_precondition_failure_witness:
  "(1::real) * (1 - 0) \<ge> 0 \<and> linmin 0 0 1 4 1 (1/10) rising = Some (Inl Bad_initial_guess)"
  using linmin_precondition_failure[of 1 1 0 4 0 "1/10" rising] by simp

subsection \<open>The bracketing phase\<close>


















lemma bracket_loop_falling:
  "bracket_loop falling 1 1 4 1 (0, 0, -1) =
     Some (Inr \<lparr>br_x0 = 1/2, br_min = (0, 0, -1), br_xmax = 4, br_max = None\<rparr>)"
  by (simp add: bracket_loop.simps bracket_for.simps falling_def)




section \<open>Properties of the driver\<close>

lemmas stub_simps = stub_env_def stub_args_def stub_block_def stub_state_def

lemmas phase_defs = force_approx_def normalize_def apply_operator_def converged_def feedback_def
  gradient_def precondition_def cg_direction_def line_minimize_def approx_linmin_def
  approx_probe_def approx_newton_def approx_step_def apply_constraint_def record_previous_def
  time_estimates_def choose_strategy_def flag_set_def usingConjugateGradient_def
  use_polak_ribiere_def D_ix_def prev_G_ix_def G_ix_def X_ix_def set_data_def say_def
  EXACT_LINMIN_TIME_def APPROX_LINMIN_TIME_def APPROX_LINMIN_SLOWDOWN_GUESS_def
  APPROX_LINMIN_IMPROVEMENT_THRESHOLD_def

subsection \<open>The convergence test\<close>

text \<open>
  For traces that are not negative the test of lines 395--396 is the relative test on
  \<open>\<bar>E\<bar> + \<bar>prev_E\<bar>\<close>; when \<open>E + prev_E + 10\<^sup>-\<^sup>7\<close> is not positive it cannot succeed for any
  tolerance that is not negative.
\<close>

lemma converged_nonnegative:
  "0 \<le> e \<Longrightarrow> 0 \<le> pe \<Longrightarrow>
     converged i tol e pe \<longleftrightarrow> 0 < i \<and> \<bar>e - pe\<bar> < tol * (\<bar>e\<bar> + \<bar>pe\<bar> + 0.0000001) / 2"
proof -
  assume "0 \<le> e" "0 \<le> pe"
  then have "\<bar>e\<bar> = e" "\<bar>pe\<bar> = pe" by simp_all
  then have "tol * 0.5 * (e + pe + 0.0000001) = tol * (\<bar>e\<bar> + \<bar>pe\<bar> + 0.0000001) / 2"
    by simp
  then show ?thesis unfolding converged_def by (simp only:)
qed

lemma converged_negative_never:
  assumes "0 \<le> tol" "e + pe + 0.0000001 \<le> 0"
  shows "\<not> converged i tol e pe"
proof -
  have "tol * 0.5 * (e + pe + 0.0000001) \<le> 0"
    using assms by (simp add: mult_nonneg_nonpos)
  then show ?thesis unfolding converged_def by (smt (verit) abs_ge_zero)
qed

lemma iteration_body_break:
  assumes "iteration_body ev a i st = Some (Inr (Break st'))"
  shows "converged i (tolerance a) (E st') (prev_E st')"
  using assms
  by (auto simp: iteration_body_def split: sum.splits if_splits option.splits)

text \<open>
  Claim C1 at the input \<open>E = -1\<close>, \<open>prev_E = -1.01\<close>, tolerance \<open>0.1\<close>, in iteration 1.
  The test of the claim, on the absolute values of the traces, holds there. The test of
  the code, on \<open>E + prev_E + 10\<^sup>-\<^sup>7\<close>, fails, and the iteration runs to its end instead
  of leaving the loop.
\<close>

theorem convergence_test_negative_trace:
  "\<bar>(-1::real) - (-101/100)\<bar> < (1/10) * (\<bar>-1\<bar> + \<bar>-101/100\<bar> + 0.0000001) / 2 \<and>
   \<not> converged 1 (1/10) (-1) (-101/100) \<and>
   (case iteration_body (stub_env (-1) 3) (stub_args 2 16 (1/10)) 1
           (stub_state\<lparr>prev_E := -101/100, prev_theta := 1/2\<rparr>) of
      Some (Inr (Continue st')) \<Rightarrow> True
    | _ \<Rightarrow> False)"
  by (simp add: iteration_body_def phase_defs stub_simps Let_def)

subsection \<open>The iteration cap\<close>

lemma driver_loop_bounds:
  "i < EIGENSOLVER_MAX_ITERATIONS \<Longrightarrow> driver_loop ev a i st = Some (n, r) \<Longrightarrow>
     i \<le> n \<and> n \<le> EIGENSOLVER_MAX_ITERATIONS \<and>
     (case r of
        Inl e \<Rightarrow> n < EIGENSOLVER_MAX_ITERATIONS
      | Inr (Break st') \<Rightarrow> n < EIGENSOLVER_MAX_ITERATIONS \<and>
                            converged n (tolerance a) (E st') (prev_E st')
      | Inr (Continue st') \<Rightarrow> n = EIGENSOLVER_MAX_ITERATIONS)"
proof (induction ev a i st rule: driver_loop.induct)
  case (1 ev a iteration st)
  show ?case
  proof (cases "iteration_body ev a iteration st")
    case None
    with "1.prems" show ?thesis by (simp add: driver_loop.simps)
  next
    case (Some res)
    show ?thesis
    proof (cases res)
      case (Inl e)
      with Some "1.prems" show ?thesis by (auto simp: driver_loop.simps)
    next
      case (Inr stp)
      show ?thesis
      proof (cases stp)
        case (Break st')
        with Some Inr "1.prems" iteration_body_break[of ev a iteration st st']
        show ?thesis by (auto simp: driver_loop.simps)
      next
        case (Continue st')
        show ?thesis
        proof (cases "iteration + 1 < EIGENSOLVER_MAX_ITERATIONS")
          case True
          with Some Inr Continue "1.prems"
          have run: "driver_loop ev a (iteration + 1) st' = Some (n, r)"
            by (simp add: driver_loop.simps)
          from "1.IH"[OF Some Inr Continue True True run] show ?thesis by simp
        next
          case False
          with Some Inr Continue "1.prems" show ?thesis by (auto simp: driver_loop.simps)
        qed
      qed
    qed
  qed
qed

text \<open>
  The exact line minimisation is the only part of an iteration with loops of its own
  (those of \<^verbatim>\<open>linmin\<close>). When it returns, the iteration returns, and so does the loop.
\<close>

lemma line_minimize_returns:
  assumes "\<And>s. exact_linmin ev a j s \<noteq> None"
  shows "line_minimize ev a j s \<noteq> None"
  using assms by (simp add: line_minimize_def split: sum.splits)

lemma iteration_body_returns:
  assumes "\<And>s. exact_linmin ev a j s \<noteq> None"
  shows "iteration_body ev a j s \<noteq> None"
proof (cases "normalize ev j (force_approx ev a s)")
  case (Inl e)
  then show ?thesis by (simp add: iteration_body_def)
next
  case (Inr s1)
  show ?thesis
  proof (cases "apply_operator ev a j s1")
    case (Inl e)
    with Inr show ?thesis by (simp add: iteration_body_def)
  next
    case s2: (Inr s2)
    let ?s = "cg_direction ev a j (precondition ev a j (gradient ev (feedback ev a j s2)))"
    from line_minimize_returns[OF assms, of ?s]
    obtain r where r: "line_minimize ev a j ?s = Some r" by blast
    show ?thesis
      using Inr s2 r by (cases r) (simp_all add: iteration_body_def)
  qed
qed

lemma driver_loop_returns:
  assumes "\<forall>j s. iteration_body ev a j s \<noteq> None"
  shows "driver_loop ev a i st \<noteq> None"
  using assms
proof (induction ev a i st rule: driver_loop.induct)
  case (1 ev a iteration st)
  from "1.prems" obtain res where res: "iteration_body ev a iteration st = Some res"
    by blast
  show ?case
  proof (cases res)
    case (Inl e)
    with res show ?thesis by (simp add: driver_loop.simps)
  next
    case (Inr stp)
    show ?thesis
    proof (cases stp)
      case (Break st')
      with res Inr show ?thesis by (simp add: driver_loop.simps)
    next
      case (Continue st')
      show ?thesis
      proof (cases "iteration + 1 < EIGENSOLVER_MAX_ITERATIONS")
        case True
        from "1.IH"[OF res Inr Continue True "1.prems"] res Inr Continue True
        show ?thesis by (simp add: driver_loop.simps)
      next
        case False
        with res Inr Continue show ?thesis by (simp add: driver_loop.simps)
      qed
    qed
  qed
qed

lemma eigensolver_returns:
  assumes "\<forall>j s. iteration_body ev a j s \<noteq> None"
  shows "eigensolver ev a st0 \<noteq> None"
proof (cases "eigensolver_init a st0")
  case (Inl e)
  then show ?thesis by (simp add: eigensolver_def)
next
  case (Inr st)
  from driver_loop_returns[OF assms, of 0 st] obtain n r where
    "driver_loop ev a 0 st = Some (n, r)" by (cases "driver_loop ev a 0 st") auto
  with Inr show ?thesis
    by (simp add: eigensolver_def split: sum.splits step.splits)
qed

text \<open>
  A run along the states \<open>sts i\<close>, \<open>sts (i + 1)\<close>, \<dots> in which every iteration before the
  \<open>k\<close>-th reaches the end of the loop body.
\<close>

lemma driver_loop_continues:
  assumes "k < EIGENSOLVER_MAX_ITERATIONS"
  shows "i \<le> k \<Longrightarrow>
         \<forall>j. i \<le> j \<and> j < k \<longrightarrow>
             iteration_body ev a j (sts j) = Some (Inr (Continue (sts (Suc j)))) \<Longrightarrow>
         driver_loop ev a i (sts i) = driver_loop ev a k (sts k)"
proof (induction "k - i" arbitrary: i)
  case 0
  then show ?case by simp
next
  case (Suc d)
  then have lt: "i < k" and d: "d = k - Suc i" and le: "Suc i \<le> k" by simp_all
  from Suc.prems(2) lt
  have body: "iteration_body ev a i (sts i) = Some (Inr (Continue (sts (Suc i))))"
    by blast
  have rest: "\<forall>j. Suc i \<le> j \<and> j < k \<longrightarrow>
             iteration_body ev a j (sts j) = Some (Inr (Continue (sts (Suc j))))"
    using Suc.prems(2) by auto
  from lt assms(1) have "i + 1 < EIGENSOLVER_MAX_ITERATIONS" by simp
  with body have "driver_loop ev a i (sts i) = driver_loop ev a (Suc i) (sts (Suc i))"
    by (subst driver_loop.simps) simp
  with Suc.hyps(1)[OF d le rest] show ?case by simp
qed

lemma driver_loop_exhausts:
  assumes "i < EIGENSOLVER_MAX_ITERATIONS"
      and "\<forall>j. i \<le> j \<and> j < EIGENSOLVER_MAX_ITERATIONS \<longrightarrow>
             iteration_body ev a j (sts j) = Some (Inr (Continue (sts (Suc j))))"
  shows "driver_loop ev a i (sts i) =
           Some (EIGENSOLVER_MAX_ITERATIONS, Inr (Continue (sts EIGENSOLVER_MAX_ITERATIONS)))"
proof -
  let ?k = "EIGENSOLVER_MAX_ITERATIONS - 1"
  have k: "?k < EIGENSOLVER_MAX_ITERATIONS" "i \<le> ?k" "Suc ?k = EIGENSOLVER_MAX_ITERATIONS"
    using assms(1) by simp_all
  have "\<forall>j. i \<le> j \<and> j < ?k \<longrightarrow>
             iteration_body ev a j (sts j) = Some (Inr (Continue (sts (Suc j))))"
  proof (intro allI impI)
    fix j
    assume "i \<le> j \<and> j < ?k"
    then have "i \<le> j \<and> j < EIGENSOLVER_MAX_ITERATIONS" by arith
    with assms(2) show "iteration_body ev a j (sts j) = Some (Inr (Continue (sts (Suc j))))"
      by blast
  qed
  from driver_loop_continues[OF k(1) k(2) this]
  have "driver_loop ev a i (sts i) = driver_loop ev a ?k (sts ?k)" .
  moreover have "iteration_body ev a ?k (sts ?k) = Some (Inr (Continue (sts (Suc ?k))))"
    using assms(2)[rule_format, of ?k] k(1,2) by blast
  then have "driver_loop ev a ?k (sts ?k) =
      Some (EIGENSOLVER_MAX_ITERATIONS, Inr (Continue (sts EIGENSOLVER_MAX_ITERATIONS)))"
    using k(3) by (subst driver_loop.simps) simp
  ultimately show ?thesis by simp
qed

text \<open>
  Claim C2. The loop enters its body with the counter \<open>iteration\<close> at \<open>0, 1, 2, \<dots>\<close>, once
  for each value, and the driver returns after at most 10000 bodies or raises "failure
  to converge":
  \<^enum> A loop started below 10000 is left with the counter at most 10000: below 10000
    when the body aborts or breaks (and a break means that the convergence test held
    in that iteration), and at exactly 10000 when the loop condition ends it, in which
    case the check after the loop raises "failure to converge".
  \<^enum> \<^verbatim>\<open>eigensolver\<close> returns normally only through the break: with \<^verbatim>\<open>*num_iterations\<close>
    between 1 and 9999 and the convergence test satisfied in that iteration.
  \<^enum> The loop has no unbounded repetition of its own: if the exact line minimisation
    (the call of \<^verbatim>\<open>linmin\<close>, which has two loops without a bound) returns whenever it
    is called, then every iteration returns, the loop returns and \<^verbatim>\<open>eigensolver\<close>
    returns, for every value of \<open>flags\<close>.
  \<^enum> If the iterations \<open>i, i + 1, \<dots>, 9999\<close> all reach the end of the loop body (no abort
    and no success of the convergence test), the loop is left by its condition with
    the counter at 10000, after exactly these \<open>10000 - i\<close> bodies; and a run of
    \<^verbatim>\<open>eigensolver\<close> whose 10000 iterations all reach the end of the body ends in the
    abort "failure to converge".
  \<^enum> If the iterations before the \<open>k\<close>-th (\<open>k < 10000\<close>) reach the end of the body and
    the \<open>k\<close>-th aborts, \<^verbatim>\<open>eigensolver\<close> aborts with the same error; if the \<open>k\<close>-th
    breaks, \<^verbatim>\<open>eigensolver\<close> returns \<^verbatim>\<open>*num_iterations = k\<close>.
\<close>

theorem iteration_cap:
  "(i < 10000 \<and> driver_loop ev a i st = Some (n, r) \<longrightarrow>
      i \<le> n \<and> n \<le> 10000 \<and>
      (case r of
         Inl e \<Rightarrow> n < 10000
       | Inr (Break st') \<Rightarrow> n < 10000 \<and> converged n (tolerance a) (E st') (prev_E st')
       | Inr (Continue st') \<Rightarrow> n = 10000 \<and> finish ev a n st' = Inl Failure_to_converge)) \<and>
   (eigensolver ev a st0 = Some (Inr (k, stf)) \<longrightarrow>
      0 < k \<and> k < 10000 \<and>
      (\<exists>st st'. eigensolver_init a st0 = Inr st \<and>
                driver_loop ev a 0 st = Some (k, Inr (Break st')) \<and>
                converged k (tolerance a) (E st') (prev_E st'))) \<and>
   ((\<forall>j s. exact_linmin ev a j s \<noteq> None) \<longrightarrow>
      (\<forall>j s. iteration_body ev a j s \<noteq> None) \<and>
      (\<exists>n' r'. driver_loop ev a i st = Some (n', r')) \<and>
      (\<exists>res. eigensolver ev a st0 = Some res)) \<and>
   (i < 10000 \<and>
    (\<forall>j. i \<le> j \<and> j < 10000 \<longrightarrow>
       iteration_body ev a j (sts j) = Some (Inr (Continue (sts (Suc j))))) \<longrightarrow>
      driver_loop ev a i (sts i) = Some (10000, Inr (Continue (sts 10000)))) \<and>
   (eigensolver_init a st0 = Inr (sts 0) \<and>
    (\<forall>j<10000. iteration_body ev a j (sts j) = Some (Inr (Continue (sts (Suc j))))) \<longrightarrow>
      eigensolver ev a st0 = Some (Inl Failure_to_converge)) \<and>
   (m < 10000 \<and> eigensolver_init a st0 = Inr (sts 0) \<and>
    (\<forall>j<m. iteration_body ev a j (sts j) = Some (Inr (Continue (sts (Suc j))))) \<longrightarrow>
      (iteration_body ev a m (sts m) = Some (Inl err) \<longrightarrow>
         eigensolver ev a st0 = Some (Inl err)) \<and>
      (iteration_body ev a m (sts m) = Some (Inr (Break stb)) \<longrightarrow>
         (\<exists>stf'. eigensolver ev a st0 = Some (Inr (m, stf')))))"
proof (intro conjI impI)
  assume h: "i < 10000 \<and> driver_loop ev a i st = Some (n, r)"
  then have b: "i \<le> n \<and> n \<le> EIGENSOLVER_MAX_ITERATIONS \<and>
     (case r of
        Inl e \<Rightarrow> n < EIGENSOLVER_MAX_ITERATIONS
      | Inr (Break st') \<Rightarrow> n < EIGENSOLVER_MAX_ITERATIONS \<and>
                            converged n (tolerance a) (E st') (prev_E st')
      | Inr (Continue st') \<Rightarrow> n = EIGENSOLVER_MAX_ITERATIONS)"
    using driver_loop_bounds[of i ev a st n r] by (simp add: EIGENSOLVER_MAX_ITERATIONS_def)
  then show "i \<le> n" by simp
  from b show "n \<le> 10000" by (simp add: EIGENSOLVER_MAX_ITERATIONS_def)
  from b show "case r of
         Inl e \<Rightarrow> n < 10000
       | Inr (Break st') \<Rightarrow> n < 10000 \<and> converged n (tolerance a) (E st') (prev_E st')
       | Inr (Continue st') \<Rightarrow> n = 10000 \<and> finish ev a n st' = Inl Failure_to_converge"
    by (auto simp: EIGENSOLVER_MAX_ITERATIONS_def finish_def split: sum.splits step.splits)
next
  assume ret: "eigensolver ev a st0 = Some (Inr (k, stf))"
  then obtain st where init: "eigensolver_init a st0 = Inr st"
    by (auto simp: eigensolver_def split: sum.splits)
  with ret obtain n r where loop: "driver_loop ev a 0 st = Some (n, r)"
    by (auto simp: eigensolver_def split: option.splits)
  have b: "n \<le> EIGENSOLVER_MAX_ITERATIONS \<and>
     (case r of
        Inl e \<Rightarrow> n < EIGENSOLVER_MAX_ITERATIONS
      | Inr (Break st') \<Rightarrow> n < EIGENSOLVER_MAX_ITERATIONS \<and>
                            converged n (tolerance a) (E st') (prev_E st')
      | Inr (Continue st') \<Rightarrow> n = EIGENSOLVER_MAX_ITERATIONS)"
    using driver_loop_bounds[of 0 ev a st n r] loop by (simp add: EIGENSOLVER_MAX_ITERATIONS_def)
  from ret init loop b obtain st' where
    r: "r = Inr (Break st')" and fin: "finish ev a n st' = Inr (k, stf)"
    by (auto simp: eigensolver_def finish_def split: sum.splits step.splits if_splits)
  from fin have kn: "k = n"
    by (auto simp: finish_def Let_def split: if_splits prod.splits)
  from b r have conv: "converged n (tolerance a) (E st') (prev_E st')" and lt: "n < 10000"
    by (simp_all add: EIGENSOLVER_MAX_ITERATIONS_def)
  from conv have pos: "0 < n" by (simp add: converged_def)
  from kn pos show "0 < k" by simp
  from kn lt show "k < 10000" by simp
  from init loop r kn conv
  show "\<exists>st st'. eigensolver_init a st0 = Inr st \<and>
                driver_loop ev a 0 st = Some (k, Inr (Break st')) \<and>
                converged k (tolerance a) (E st') (prev_E st')"
    by auto
next
  assume "\<forall>j s. exact_linmin ev a j s \<noteq> None"
  then have body: "iteration_body ev a j s \<noteq> None" for j s
    using iteration_body_returns[of ev a j s] by blast
  then show "\<forall>j s. iteration_body ev a j s \<noteq> None" by blast
  then have all: "\<forall>j s. iteration_body ev a j s \<noteq> None" by blast
  from driver_loop_returns[OF all, of i st]
  show "\<exists>n' r'. driver_loop ev a i st = Some (n', r')"
    by (cases "driver_loop ev a i st") auto
  from eigensolver_returns[OF all, of st0]
  show "\<exists>res. eigensolver ev a st0 = Some res" by blast
next
  assume h: "i < 10000 \<and>
    (\<forall>j. i \<le> j \<and> j < 10000 \<longrightarrow>
       iteration_body ev a j (sts j) = Some (Inr (Continue (sts (Suc j)))))"
  then show "driver_loop ev a i (sts i) = Some (10000, Inr (Continue (sts 10000)))"
    using driver_loop_exhausts[of i ev a sts] by (simp add: EIGENSOLVER_MAX_ITERATIONS_def)
next
  assume h: "eigensolver_init a st0 = Inr (sts 0) \<and>
    (\<forall>j<10000. iteration_body ev a j (sts j) = Some (Inr (Continue (sts (Suc j)))))"
  then have "driver_loop ev a 0 (sts 0) = Some (10000, Inr (Continue (sts 10000)))"
    using driver_loop_exhausts[of 0 ev a sts] by (simp add: EIGENSOLVER_MAX_ITERATIONS_def)
  with h show "eigensolver ev a st0 = Some (Inl Failure_to_converge)"
    by (simp add: eigensolver_def finish_def EIGENSOLVER_MAX_ITERATIONS_def)
next
  assume h: "m < 10000 \<and> eigensolver_init a st0 = Inr (sts 0) \<and>
    (\<forall>j<m. iteration_body ev a j (sts j) = Some (Inr (Continue (sts (Suc j)))))"
  then have run: "driver_loop ev a 0 (sts 0) = driver_loop ev a m (sts m)"
    using driver_loop_continues[of m 0 ev a sts] by (simp add: EIGENSOLVER_MAX_ITERATIONS_def)
  {
    assume "iteration_body ev a m (sts m) = Some (Inl err)"
    then have "driver_loop ev a m (sts m) = Some (m, Inl err)"
      by (subst driver_loop.simps) simp
    with run h show "eigensolver ev a st0 = Some (Inl err)"
      by (simp add: eigensolver_def)
  next
    assume "iteration_body ev a m (sts m) = Some (Inr (Break stb))"
    then have "driver_loop ev a m (sts m) = Some (m, Inr (Break stb))"
      by (subst driver_loop.simps) simp
    with run h have "eigensolver ev a st0 = Some (finish ev a m stb)"
      by (simp add: eigensolver_def)
    moreover have "\<exists>stf'. finish ev a m stb = Inr (m, stf')"
      using h by (simp add: finish_def EIGENSOLVER_MAX_ITERATIONS_def Let_def case_prod_beta)
    ultimately show "\<exists>stf'. eigensolver ev a st0 = Some (Inr (m, stf'))" by auto
  }
qed

text \<open>
  Runs of the two test doubles. In the first the exact line minimisation always
  returns, and the driver returns after its second iteration, with
  \<^verbatim>\<open>*num_iterations = 1\<close>. In the second the trace changes sign in every iteration: all
  10000 iterations reach the end of the loop body, and the driver aborts with "failure
  to converge".
\<close>

lemma stub_exact_returns:
  "exact_linmin (stub_env e e2) a j s \<noteq> None"
  by (simp add: exact_linmin_def exact_derivatives_def exact_minimize_def linmin_def
        linmin_precheck_def stub_env_def Let_def case_prod_beta)

lemma stub_run:
  "\<exists>stf. eigensolver (stub_env 1 3) (stub_args 2 16 (1/1000)) stub_state = Some (Inr (1, stf))"
  by (simp add: eigensolver_def eigensolver_init_def zero_fill_def driver_loop.simps
        iteration_body_def phase_defs stub_simps Let_def finish_def
        EIGENSOLVER_MAX_ITERATIONS_def)

text \<open>Every iteration of the second test double reaches the end of the loop body.\<close>

lemma flip_step:
  assumes "flip_inv s"
  shows "\<exists>s'. iteration_body flip_env (stub_args 2 16 (1/1000)) j s = Some (Inr (Continue s')) \<and>
              flip_inv s'"
proof -
  from assms have p: "em_p (Y s) = 1" by (simp add: flip_inv_def)
  from assms consider
      (start) "em_data (Y s) 0 = 1" "prev_theta s = 1/2" "prev_E s = 0"
    | (down) "em_data (Y s) 0 = -1" "prev_theta s = -1/2" "prev_E s = -1"
    | (up) "em_data (Y s) 0 = 1" "prev_theta s = -1/2" "prev_E s = 1"
    by (auto simp: flip_inv_def)
  then show ?thesis
  proof cases
    case start
    show ?thesis
      by (simp add: p start iteration_body_def phase_defs flip_env_def stub_simps Let_def
            flip_inv_def case_prod_beta)
  next
    case down
    show ?thesis
      by (simp add: p down iteration_body_def phase_defs flip_env_def stub_simps Let_def
            flip_inv_def case_prod_beta)
  next
    case up
    show ?thesis
      by (simp add: p up iteration_body_def phase_defs flip_env_def stub_simps Let_def
            flip_inv_def case_prod_beta)
  qed
qed

lemma flip_run:
  assumes "flip_inv s0"
  shows "flip_inv (run_states flip_env (stub_args 2 16 (1/1000)) s0 j) \<and>
         iteration_body flip_env (stub_args 2 16 (1/1000)) j
           (run_states flip_env (stub_args 2 16 (1/1000)) s0 j) =
         Some (Inr (Continue (run_states flip_env (stub_args 2 16 (1/1000)) s0 (Suc j))))"
proof (induction j)
  case 0
  have inv: "flip_inv (run_states flip_env (stub_args 2 16 (1/1000)) s0 0)"
    using assms by (simp add: run_states.simps)
  from flip_step[OF inv, of 0] inv show ?case
    by (auto simp: run_states.simps(2)[of _ _ _ 0])
next
  case (Suc j)
  from Suc flip_step[of "run_states flip_env (stub_args 2 16 (1/1000)) s0 j" j]
  have inv: "flip_inv (run_states flip_env (stub_args 2 16 (1/1000)) s0 (Suc j))"
    by auto
  from flip_step[OF inv, of "Suc j"] inv show ?case
    by (auto simp: run_states.simps(2)[of _ _ _ "Suc j"])
qed

lemma flip_init:
  "\<exists>s0. eigensolver_init (stub_args 2 16 (1/1000)) stub_state = Inr s0 \<and> flip_inv s0"
  by (simp add: eigensolver_init_def usingConjugateGradient_def use_polak_ribiere_def
        stub_simps flip_inv_def Let_def)

theorem iteration_cap_witness:
  "(\<exists>stf. eigensolver (stub_env 1 3) (stub_args 2 16 (1/1000)) stub_state = Some (Inr (1, stf))) \<and>
   (0::nat) < 1 \<and> (1::nat) < 10000 \<and>
   (\<forall>j s. exact_linmin (stub_env 1 3) (stub_args 2 16 (1/1000)) j s \<noteq> None) \<and>
   (\<exists>n r. driver_loop (stub_env 1 3) (stub_args 2 16 (1/1000)) 0 stub_state = Some (n, r)) \<and>
   (\<exists>s0. eigensolver_init (stub_args 2 16 (1/1000)) stub_state = Inr s0 \<and>
         driver_loop flip_env (stub_args 2 16 (1/1000)) 0 s0 =
           Some (10000, Inr (Continue (run_states flip_env (stub_args 2 16 (1/1000)) s0 10000))) \<and>
         finish flip_env (stub_args 2 16 (1/1000)) 10000
           (run_states flip_env (stub_args 2 16 (1/1000)) s0 10000) = Inl Failure_to_converge) \<and>
   eigensolver flip_env (stub_args 2 16 (1/1000)) stub_state = Some (Inl Failure_to_converge)"
proof -
  let ?a = "stub_args 2 16 (1/1000)"
  obtain stf where run: "eigensolver (stub_env 1 3) ?a stub_state = Some (Inr (1, stf))"
    using stub_run by blast
  obtain s0 where init: "eigensolver_init ?a stub_state = Inr s0" and inv: "flip_inv s0"
    using flip_init by blast
  let ?sts = "run_states flip_env ?a s0"
  have traj: "iteration_body flip_env ?a j (?sts j) = Some (Inr (Continue (?sts (Suc j))))" for j
    using flip_run[OF inv, of j] by simp
  have start: "?sts 0 = s0" by (simp add: run_states.simps)
  note S = iteration_cap[of 0 "stub_env 1 3" ?a stub_state 0 "Inl Not_real" stub_state 1 stf]
  have a: "(0::nat) < 1 \<and> (1::nat) < 10000"
    using S[THEN conjunct2, THEN conjunct1] run by blast
  have quiet: "\<forall>j s. exact_linmin (stub_env 1 3) ?a j s \<noteq> None"
    using stub_exact_returns by blast
  have ret: "\<exists>n r. driver_loop (stub_env 1 3) ?a 0 stub_state = Some (n, r)"
    using S[THEN conjunct2, THEN conjunct2, THEN conjunct1] quiet by blast
  note F = iteration_cap[of 0 flip_env ?a s0 10000 "Inr (Continue (?sts 10000))" stub_state 0
      stub_state ?sts]
  have h: "(0::nat) < 10000 \<and>
    (\<forall>j. 0 \<le> j \<and> j < 10000 \<longrightarrow>
       iteration_body flip_env ?a j (?sts j) = Some (Inr (Continue (?sts (Suc j)))))"
    using traj by simp
  have loop: "driver_loop flip_env ?a 0 s0 = Some (10000, Inr (Continue (?sts 10000)))"
    using F[THEN conjunct2, THEN conjunct2, THEN conjunct2, THEN conjunct1, THEN mp, OF h]
    unfolding start .
  have h1: "(0::nat) < 10000 \<and>
    driver_loop flip_env ?a 0 s0 = Some (10000, Inr (Continue (?sts 10000)))"
    using loop by simp
  have fin: "finish flip_env ?a 10000 (?sts 10000) = Inl Failure_to_converge"
    using F[THEN conjunct1, THEN mp, OF h1] by simp
  have h2: "eigensolver_init ?a stub_state = Inr (?sts 0) \<and>
    (\<forall>j<10000. iteration_body flip_env ?a j (?sts j) = Some (Inr (Continue (?sts (Suc j)))))"
    using init traj unfolding start by simp
  have abort: "eigensolver flip_env ?a stub_state = Some (Inl Failure_to_converge)"
    using F[THEN conjunct2, THEN conjunct2, THEN conjunct2, THEN conjunct2, THEN conjunct1,
        THEN mp, OF h2] .
  show ?thesis
    apply (intro conjI)
          apply (rule exI[of _ stf], rule run)
         apply (rule a[THEN conjunct1])
        apply (rule a[THEN conjunct2])
       apply (rule quiet)
      apply (rule ret)
     apply (rule exI[of _ s0], intro conjI, rule init, rule loop, rule fin)
    apply (rule abort)
    done
qed
subsection \<open>The array \<^verbatim>\<open>eigenvals\<close>\<close>

text \<open>The clearing loop, and the phases of an iteration, none of which writes the array.\<close>

lemma zero_fill_eq: "zero_fill N a = (\<lambda>i. if i < N then 0 else a i)"
proof (induction N)
  case 0
  show ?case by (simp add: zero_fill_def)
next
  case (Suc N)
  have "zero_fill (Suc N) a = (zero_fill N a)(N := 0)"
    by (simp add: zero_fill_def)
  with Suc show ?case by (auto simp: fun_eq_iff)
qed

lemma init_eigenvals:
  assumes "eigensolver_init a st0 = Inr st"
  shows "eigenvals st = (\<lambda>i. if i < em_p (Y st0) then 0 else eigenvals st0 i)"
  using assms
  by (auto simp: eigensolver_init_def Let_def zero_fill_eq set_data_def
           split: if_splits option.splits)

lemma normalize_eigenvals:
  "normalize ev i st = Inr st' \<Longrightarrow> eigenvals st' = eigenvals st"
  by (auto simp: normalize_def Let_def split: if_splits)

lemma apply_operator_eigenvals:
  "apply_operator ev a i st = Inr st' \<Longrightarrow> eigenvals st' = eigenvals st"
  by (auto simp: apply_operator_def Let_def case_prod_beta split: if_splits)

lemma cg_direction_eigenvals: "eigenvals (cg_direction ev a i st) = eigenvals st"
  by (simp add: cg_direction_def gamma_numerator_pass_def say_def Let_def case_prod_beta)

lemma pre_eigenvals:
  "eigenvals (precondition ev a i (gradient ev (feedback ev a i st))) = eigenvals st"
  by (simp add: precondition_def gradient_def feedback_def say_def Let_def split: option.splits)

lemma approx_probe_eigenvals:
  "approx_probe ev a st = Inr (r, st') \<Longrightarrow> eigenvals st' = eigenvals st"
  by (auto simp: approx_probe_def Let_def case_prod_beta split: if_splits)

lemma approx_newton_eigenvals:
  "approx_newton dE t E2 st = Inr (r, st') \<Longrightarrow> eigenvals st' = eigenvals st"
  by (auto simp: approx_newton_def Let_def split: if_splits)

lemma approx_step_eigenvals: "eigenvals (approx_step ev a dE d2E t st) = eigenvals st"
  by (simp add: approx_step_def say_def Let_def)

lemma approx_linmin_eigenvals:
  assumes "approx_linmin ev a st = Inr st'"
  shows "eigenvals st' = eigenvals st"
proof -
  from assms obtain dE t E2 st1 where p: "approx_probe ev a st = Inr ((dE, t, E2), st1)"
    by (auto simp: approx_linmin_def split: sum.splits)
  with assms obtain d2E st2 where n: "approx_newton dE t E2 st1 = Inr (d2E, st2)"
    by (auto simp: approx_linmin_def split: sum.splits)
  from assms p n have "st' = approx_step ev a dE d2E t st2"
    by (simp add: approx_linmin_def)
  with approx_probe_eigenvals[OF p] approx_newton_eigenvals[OF n] show ?thesis
    by (simp add: approx_step_eigenvals)
qed

lemma safeguard_eigenvals: "eigenvals (safeguard_theta ev a dE d2E st) = eigenvals st"
  by (simp add: safeguard_theta_def say_def Let_def)

lemma exact_derivatives_eigenvals:
  "exact_derivatives ev a st = Inr (r, st') \<Longrightarrow> eigenvals st' = eigenvals st"
  by (auto simp: exact_derivatives_def Let_def case_prod_beta split: if_splits)

lemma exact_minimize_eigenvals:
  "exact_minimize ev a i dE st = Some (Inr st') \<Longrightarrow> eigenvals st' = eigenvals st"
  by (auto simp: exact_minimize_def Let_def split: option.splits sum.splits)

lemma exact_linmin_eigenvals:
  assumes "exact_linmin ev a i st = Some (Inr st')"
  shows "eigenvals st' = eigenvals st"
proof -
  from assms obtain dE d2E st1 where d: "exact_derivatives ev a st = Inr ((dE, d2E), st1)"
    by (auto simp: exact_linmin_def split: sum.splits)
  with assms have "exact_minimize ev a i dE (safeguard_theta ev a dE d2E st1) = Some (Inr st')"
    by (auto simp: exact_linmin_def split: if_splits)
  from exact_minimize_eigenvals[OF this] exact_derivatives_eigenvals[OF d] show ?thesis
    by (simp add: safeguard_eigenvals)
qed

lemma line_minimize_eigenvals:
  "line_minimize ev a i st = Some (Inr st') \<Longrightarrow> eigenvals st' = eigenvals st"
  by (auto simp: line_minimize_def split: sum.splits if_splits
        dest!: approx_linmin_eigenvals exact_linmin_eigenvals)

lemma tail_eigenvals:
  "eigenvals (choose_strategy ev a (record_previous (apply_constraint a st))) = eigenvals st"
  by (simp add: choose_strategy_def record_previous_def apply_constraint_def say_def Let_def
        case_prod_beta split: option.splits)

lemma iteration_body_eigenvals:
  assumes "iteration_body ev a i st = Some (Inr sp)"
  shows "eigenvals (step_state sp) = eigenvals st"
proof -
  from assms obtain st1 where n: "normalize ev i (force_approx ev a st) = Inr st1"
    by (auto simp: iteration_body_def split: sum.splits)
  with assms obtain st2 where o: "apply_operator ev a i st1 = Inr st2"
    by (auto simp: iteration_body_def split: sum.splits)
  have e2: "eigenvals st2 = eigenvals st"
    using normalize_eigenvals[OF n] apply_operator_eigenvals[OF o]
    by (simp add: force_approx_def)
  show ?thesis
  proof (cases "converged i (tolerance a) (E st2) (prev_E st2)")
    case True
    with assms n o have "sp = Break st2" by (simp add: iteration_body_def)
    with e2 show ?thesis by (simp add: step_state_def)
  next
    case False
    let ?s = "cg_direction ev a i (precondition ev a i (gradient ev (feedback ev a i st2)))"
    from False assms n o obtain st3 where
      l: "line_minimize ev a i ?s = Some (Inr st3)" and
      sp: "sp = Continue (choose_strategy ev a (record_previous (apply_constraint a st3)))"
      by (auto simp: iteration_body_def split: option.splits sum.splits)
    from line_minimize_eigenvals[OF l] have "eigenvals st3 = eigenvals st2"
      by (simp add: cg_direction_eigenvals pre_eigenvals)
    with sp e2 show ?thesis by (simp add: step_state_def tail_eigenvals)
  qed
qed

lemma driver_loop_eigenvals:
  "driver_loop ev a i st = Some (n, Inr sp) \<Longrightarrow> eigenvals (step_state sp) = eigenvals st"
proof (induction ev a i st rule: driver_loop.induct)
  case (1 ev a iteration st)
  show ?case
  proof (cases "iteration_body ev a iteration st")
    case None
    with "1.prems" show ?thesis by (simp add: driver_loop.simps)
  next
    case (Some res)
    show ?thesis
    proof (cases res)
      case (Inl e)
      with Some "1.prems" show ?thesis by (auto simp: driver_loop.simps)
    next
      case (Inr stp)
      have body: "eigenvals (step_state stp) = eigenvals st"
        using iteration_body_eigenvals[of ev a iteration st stp] Some Inr by simp
      show ?thesis
      proof (cases stp)
        case (Break st')
        with Some Inr "1.prems" body show ?thesis by (auto simp: driver_loop.simps)
      next
        case (Continue st')
        show ?thesis
        proof (cases "iteration + 1 < EIGENSOLVER_MAX_ITERATIONS")
          case True
          with Some Inr Continue "1.prems"
          have run: "driver_loop ev a (iteration + 1) st' = Some (n, Inr sp)"
            by (simp add: driver_loop.simps)
          from "1.IH"[OF Some Inr Continue True run] body Continue show ?thesis
            by (simp add: step_state_def)
        next
          case False
          with Some Inr Continue "1.prems" body show ?thesis by (auto simp: driver_loop.simps)
        qed
      qed
    qed
  qed
qed

text \<open>
  Claim C10. When the entry code passes its workspace check, it returns with the
  entries \<open>0 \<dots> p - 1\<close> of \<^verbatim>\<open>eigenvals\<close> set to zero (the rest of the array is not
  touched), before the first iteration. No iteration writes the array, so at every
  point of the loop, also one where the solver aborts, the caller's values are gone.
\<close>

theorem eigenvals_cleared:
  assumes "eigensolver_init a st0 = Inr st"
  shows "(\<forall>i. eigenvals st i = (if i < em_p (Y st0) then 0 else eigenvals st0 i)) \<and>
         (\<forall>j s sp. iteration_body ev a j s = Some (Inr sp) \<longrightarrow>
                    eigenvals (step_state sp) = eigenvals s) \<and>
         (\<forall>n sp. driver_loop ev a 0 st = Some (n, Inr sp) \<longrightarrow>
                  (\<forall>i < em_p (Y st0). eigenvals (step_state sp) i = 0))"
proof (intro conjI allI impI)
  fix i
  show "eigenvals st i = (if i < em_p (Y st0) then 0 else eigenvals st0 i)"
    using init_eigenvals[OF assms] by simp
next
  fix j s sp
  assume "iteration_body ev a j s = Some (Inr sp)"
  then show "eigenvals (step_state sp) = eigenvals s" by (rule iteration_body_eigenvals)
next
  fix n sp i
  assume "driver_loop ev a 0 st = Some (n, Inr sp)" and "i < em_p (Y st0)"
  then show "eigenvals (step_state sp) i = 0"
    using driver_loop_eigenvals[of ev a 0 st n sp] init_eigenvals[OF assms] by simp
qed

lemma stub_init:
  "eigensolver_init (stub_args 2 16 (1/1000)) stub_state =
     Inr (stub_state\<lparr>use_linmin := True, prev_theta := 0.5, eigenvals := (\<lambda>i. 7)(0 := 0)\<rparr>)"
  by (simp add: eigensolver_init_def stub_simps usingConjugateGradient_def
        use_polak_ribiere_def zero_fill_def Let_def)

theorem eigenvals_cleared_witness:
  "eigenvals stub_state 0 = 7 \<and>
   eigensolver_init (stub_args 2 16 (1/1000)) stub_state =
     Inr (stub_state\<lparr>use_linmin := True, prev_theta := 0.5, eigenvals := (\<lambda>i. 7)(0 := 0)\<rparr>) \<and>
   eigenvals (stub_state\<lparr>use_linmin := True, prev_theta := 0.5,
                          eigenvals := (\<lambda>i. 7)(0 := 0)\<rparr>) 0 = 0"
proof -
  have a: "eigenvals stub_state 0 = 7" by (simp add: stub_state_def)
  have p: "em_p (Y stub_state) = 1" by (simp add: stub_state_def stub_block_def)
  from eigenvals_cleared[OF stub_init, of "stub_env 1 3"]
  have "\<forall>i. eigenvals (stub_state\<lparr>use_linmin := True, prev_theta := 0.5,
                eigenvals := (\<lambda>i. 7)(0 := 0)\<rparr>) i =
            (if i < em_p (Y stub_state) then 0 else eigenvals stub_state i)"
    by blast
  then have "eigenvals (stub_state\<lparr>use_linmin := True, prev_theta := 0.5,
                eigenvals := (\<lambda>i. 7)(0 := 0)\<rparr>) 0 = 0"
    using p by simp
  with a stub_init show ?thesis by blast
qed

subsection \<open>The conjugate-gradient direction\<close>

text \<open>The accesses of the fused pass at index \<open>i\<close>, in program order.\<close>

lemma pr_step_eq:
  "pr_step G_at prev_G_at i (W, acc) =
     (let W1 = W(G_at := set_data (W G_at)
                  ((em_data (W G_at))(i := em_data (W G_at) i - em_data (W prev_G_at) i)))
      in (W1(prev_G_at := set_data (W1 prev_G_at)
                ((em_data (W1 prev_G_at))(i := em_data (W G_at) i))),
          acc @ [Rd G_at i, Rd prev_G_at i, Upd G_at i, Wr prev_G_at i]))"
  by (simp add: pr_step_def read_cell_def ACCUMULATE_DIFF_def write_cell_def Let_def)

lemma pr_fused_Suc:
  "pr_fused G_at prev_G_at (Suc N) m = pr_step G_at prev_G_at N (pr_fused G_at prev_G_at N m)"
  by (simp add: pr_fused_def)

text \<open>
  The pass in closed form, for two different blocks: the contents it leaves, computed
  from the contents before the pass, and the accesses it makes.
\<close>

lemma pr_fused_eq:
  assumes "G_at \<noteq> prev_G_at"
  shows "pr_fused G_at prev_G_at N (W, acc) =
     (W(G_at := set_data (W G_at)
                  (\<lambda>i. if i < N then em_data (W G_at) i - em_data (W prev_G_at) i
                       else em_data (W G_at) i),
        prev_G_at := set_data (W prev_G_at)
                  (\<lambda>i. if i < N then em_data (W G_at) i else em_data (W prev_G_at) i)),
      acc @ concat (map (\<lambda>i. [Rd G_at i, Rd prev_G_at i, Upd G_at i, Wr prev_G_at i]) [0..<N]))"
proof (induction N)
  case 0
  have "set_data (W G_at) (em_data (W G_at)) = W G_at"
       "set_data (W prev_G_at) (em_data (W prev_G_at)) = W prev_G_at"
    by (simp_all add: set_data_def)
  then show ?case by (simp add: pr_fused_def)
next
  case (Suc N)
  have g: "(\<lambda>i. if i < N then em_data (W G_at) i - em_data (W prev_G_at) i
                else em_data (W G_at) i)
           (N := em_data (W G_at) N - em_data (W prev_G_at) N) =
           (\<lambda>i. if i < Suc N then em_data (W G_at) i - em_data (W prev_G_at) i
                else em_data (W G_at) i)"
    by (auto simp: fun_eq_iff)
  have p: "(\<lambda>i. if i < N then em_data (W G_at) i else em_data (W prev_G_at) i)
           (N := em_data (W G_at) N) =
           (\<lambda>i. if i < Suc N then em_data (W G_at) i else em_data (W prev_G_at) i)"
    by (auto simp: fun_eq_iff)
  show ?case
    unfolding pr_fused_Suc Suc.IH pr_step_eq
    using assms by (simp add: Let_def set_data_def g p) (auto simp: fun_eq_iff)
qed

text \<open>Every cell below \<open>N\<close> of the two blocks is read once and written once.\<close>

lemma pr_fused_counts:
  assumes "G_at \<noteq> prev_G_at"
  shows "count_list (concat (map (\<lambda>i. [Rd G_at i, Rd prev_G_at i, Upd G_at i, Wr prev_G_at i])
            [0..<N])) e =
         (if \<exists>i<N. e = Rd G_at i \<or> e = Rd prev_G_at i \<or> e = Upd G_at i \<or> e = Wr prev_G_at i
          then 1 else 0)"
proof (induction N)
  case 0
  show ?case by simp
next
  case (Suc N)
  show ?case
  proof (cases "e = Rd G_at N \<or> e = Rd prev_G_at N \<or> e = Upd G_at N \<or> e = Wr prev_G_at N")
    case True
    then have old: "\<not> (\<exists>i<N. e = Rd G_at i \<or> e = Rd prev_G_at i \<or> e = Upd G_at i \<or>
                        e = Wr prev_G_at i)"
      by auto
    have new: "\<exists>i<Suc N. e = Rd G_at i \<or> e = Rd prev_G_at i \<or> e = Upd G_at i \<or>
                        e = Wr prev_G_at i"
      using True by blast
    from True assms show ?thesis
      unfolding if_P[OF new] using Suc.IH old by auto
  next
    case False
    then have "(\<exists>i<Suc N. e = Rd G_at i \<or> e = Rd prev_G_at i \<or> e = Upd G_at i \<or>
                   e = Wr prev_G_at i) =
               (\<exists>i<N. e = Rd G_at i \<or> e = Rd prev_G_at i \<or> e = Upd G_at i \<or>
                   e = Wr prev_G_at i)"
      by (auto simp: less_Suc_eq)
    with False show ?thesis using Suc.IH by auto
  qed
qed

lemma pr_fused_footprint:
  "e \<in> set (concat (map (\<lambda>i. [Rd G_at i, Rd prev_G_at i, Upd G_at i, Wr prev_G_at i]) [0..<N]))
   \<longleftrightarrow> (\<exists>i<N. e = Rd G_at i \<or> e = Rd prev_G_at i \<or> e = Upd G_at i \<or> e = Wr prev_G_at i)"
  by auto

text \<open>
  Claim C6. With four or more work blocks (\<open>nWork \<ge> 4\<close>) \<^verbatim>\<open>G\<close> is \<^verbatim>\<open>Work[0]\<close> and
  \<^verbatim>\<open>prev_G\<close> is \<^verbatim>\<open>Work[3]\<close>, two different blocks. The fused pass over \<open>N = n * p\<close>
  scalars runs the loop body once for each index \<open>0, 1, \<dots>, N - 1\<close>, in this order. The
  body at index \<open>i\<close> makes four accesses, all of them at index \<open>i\<close>: it loads \<^verbatim>\<open>G[i]\<close>
  into the scalar \<open>g\<close>, reads \<^verbatim>\<open>prev_G[i]\<close>, updates \<^verbatim>\<open>G[i]\<close> in place (\<^verbatim>\<open>G[i] -= prev_G[i]\<close>)
  and stores \<open>g\<close> in \<^verbatim>\<open>prev_G[i]\<close>; it turns the pair \<open>(G[i], prev_G[i])\<close> into
  \<open>(G[i] - prev_G[i], G[i])\<close> and leaves every other cell as it was. So the sequence of
  accesses of the whole pass is these four accesses for \<open>i = 0\<close>, then for \<open>i = 1\<close>, and
  so on: each of the accesses occurs exactly once for every index below \<open>N\<close>, there are
  \<open>4 * N\<close> accesses in all, and none of them is to a block other than \<^verbatim>\<open>G\<close> and
  \<^verbatim>\<open>prev_G\<close> or to an index from \<open>N\<close> on. After the pass \<^verbatim>\<open>G\<close> holds the differences of
  the old values and \<^verbatim>\<open>prev_G\<close> the old \<^verbatim>\<open>G\<close> at every index below \<open>N\<close>; the cells from
  \<open>N\<close> on and all other blocks of the store are unchanged. The numerator of \<open>gamma\<close> is
  \<open>tr(G\<^sup>\<dagger>X)\<close> on the updated \<^verbatim>\<open>G\<close>, and the state changes in \<^verbatim>\<open>Work[]\<close> only.
\<close>

theorem polak_ribiere_fused_pass:
  assumes "nWork a \<ge> 4"
  shows "G_ix = 0 \<and> prev_G_ix a = 3 \<and>
         pr_fused G_ix (prev_G_ix a) (Suc k) (W, acc) =
           pr_step G_ix (prev_G_ix a) k (pr_fused G_ix (prev_G_ix a) k (W, acc)) \<and>
         pr_step G_ix (prev_G_ix a) i (W, acc) =
           (W(0 := set_data (W 0) ((em_data (W 0))(i := em_data (W 0) i - em_data (W 3) i)),
              3 := set_data (W 3) ((em_data (W 3))(i := em_data (W 0) i))),
            acc @ [Rd 0 i, Rd 3 i, Upd 0 i, Wr 3 i]) \<and>
         (let N = em_n (Y st) * em_p (Y st);
              G = Work st 0; prev_G = Work st 3;
              G' = set_data G (\<lambda>i. if i < N then em_data G i - em_data prev_G i
                                     else em_data G i);
              prev_G' = set_data prev_G (\<lambda>i. if i < N then em_data G i else em_data prev_G i);
              W' = fst (pr_fused G_ix (prev_G_ix a) N (Work st, []));
              trace = snd (pr_fused G_ix (prev_G_ix a) N (Work st, []))
          in trace = concat (map (\<lambda>i. [Rd 0 i, Rd 3 i, Upd 0 i, Wr 3 i]) [0..<N]) \<and>
             length trace = 4 * N \<and>
             (\<forall>i<N. count_list trace (Rd 0 i) = 1 \<and> count_list trace (Rd 3 i) = 1 \<and>
                     count_list trace (Upd 0 i) = 1 \<and> count_list trace (Wr 3 i) = 1) \<and>
             (\<forall>e\<in>set trace. \<exists>i<N. e = Rd 0 i \<or> e = Rd 3 i \<or> e = Upd 0 i \<or> e = Wr 3 i) \<and>
             W' = (Work st)(0 := G', 3 := prev_G') \<and>
             gamma_numerator_pass ev a st =
               (SCALAR_RE ev (evectmatrix_traceXtY ev G' (Work st 1)), st\<lparr>Work := W'\<rparr>))"
proof -
  from assms have pr: "use_polak_ribiere a" and ix: "G_ix = 0" "prev_G_ix a = 3"
    by (simp_all add: use_polak_ribiere_def prev_G_ix_def G_ix_def)
  have ne: "(0::nat) \<noteq> 3" by simp
  define N where "N = em_n (Y st) * em_p (Y st)"
  define tr where "tr = concat (map (\<lambda>i. [Rd 0 i, Rd 3 i, Upd 0 i, Wr 3 i]) [0..<N])"
  have run: "pr_fused 0 3 N (Work st, []) =
     ((Work st)(0 := set_data (Work st 0)
                  (\<lambda>i. if i < N then em_data (Work st 0) i - em_data (Work st 3) i
                       else em_data (Work st 0) i),
        3 := set_data (Work st 3)
                  (\<lambda>i. if i < N then em_data (Work st 0) i else em_data (Work st 3) i)), tr)"
    unfolding tr_def using pr_fused_eq[OF ne, of N "Work st" "[]"] by simp
  have len: "length tr = 4 * N"
    unfolding tr_def by (induction N) simp_all
  have cnt: "count_list tr (Rd 0 i) = 1 \<and> count_list tr (Rd 3 i) = 1 \<and>
             count_list tr (Upd 0 i) = 1 \<and> count_list tr (Wr 3 i) = 1" if "i < N" for i
    unfolding tr_def pr_fused_counts[OF ne] using that by auto
  have foot: "\<forall>e\<in>set tr. \<exists>i<N. e = Rd 0 i \<or> e = Rd 3 i \<or> e = Upd 0 i \<or> e = Wr 3 i"
    unfolding tr_def using pr_fused_footprint[of _ 0 3 N] by blast
  have num: "gamma_numerator_pass ev a st =
      (SCALAR_RE ev (evectmatrix_traceXtY ev
          (set_data (Work st 0)
             (\<lambda>i. if i < N then em_data (Work st 0) i - em_data (Work st 3) i
                  else em_data (Work st 0) i)) (Work st 1)),
       st\<lparr>Work := fst (pr_fused 0 3 N (Work st, []))\<rparr>)"
    using pr by (simp add: gamma_numerator_pass_def ix N_def[symmetric] run X_ix_def Let_def)
  have step: "pr_step 0 3 i (W, acc) =
           (W(0 := set_data (W 0) ((em_data (W 0))(i := em_data (W 0) i - em_data (W 3) i)),
              3 := set_data (W 3) ((em_data (W 3))(i := em_data (W 0) i))),
            acc @ [Rd 0 i, Rd 3 i, Upd 0 i, Wr 3 i])"
    by (simp add: pr_step_eq Let_def)
  show ?thesis
    unfolding ix Let_def N_def[symmetric]
    using len cnt foot num step unfolding tr_def by (simp add: pr_fused_Suc run tr_def)
qed

theorem polak_ribiere_fused_pass_witness:
  "nWork (stub_args 4 0 (1/1000)) \<ge> 4 \<and>
   snd (pr_fused G_ix (prev_G_ix (stub_args 4 0 (1/1000))) 2 (Work cg_state, [])) =
     [Rd 0 0, Rd 3 0, Upd 0 0, Wr 3 0, Rd 0 1, Rd 3 1, Upd 0 1, Wr 3 1] \<and>
   em_data (Work (snd (gamma_numerator_pass (stub_env 1 3) (stub_args 4 0 (1/1000)) cg_state)) 0) 0 = 4 \<and>
   em_data (Work (snd (gamma_numerator_pass (stub_env 1 3) (stub_args 4 0 (1/1000)) cg_state)) 0) 1 = 5 \<and>
   em_data (Work (snd (gamma_numerator_pass (stub_env 1 3) (stub_args 4 0 (1/1000)) cg_state)) 3) 0 = 5 \<and>
   em_data (Work (snd (gamma_numerator_pass (stub_env 1 3) (stub_args 4 0 (1/1000)) cg_state)) 3) 1 = 7 \<and>
   Work (snd (gamma_numerator_pass (stub_env 1 3) (stub_args 4 0 (1/1000)) cg_state)) 2 =
     Work cg_state 2"
proof -
  have n: "nWork (stub_args 4 0 (1/1000)) \<ge> 4" by (simp add: stub_args_def)
  have N: "em_n (Y cg_state) * em_p (Y cg_state) = 2"
    by (simp add: cg_state_def cg_block_def)
  have up: "[0..<2] = [0, 1]" by (simp add: upt_rec)
  note T = polak_ribiere_fused_pass[OF n, of 0 "Work cg_state" "[]" 0 cg_state "stub_env 1 3",
      unfolded Let_def N]
  note R = T[THEN conjunct2, THEN conjunct2, THEN conjunct2, THEN conjunct2]
  have tr: "snd (pr_fused G_ix (prev_G_ix (stub_args 4 0 (1/1000))) 2 (Work cg_state, [])) =
     [Rd 0 0, Rd 3 0, Upd 0 0, Wr 3 0, Rd 0 1, Rd 3 1, Upd 0 1, Wr 3 1]"
    using R[THEN conjunct1] by (simp add: up)
  note W = R[THEN conjunct2, THEN conjunct2, THEN conjunct2, THEN conjunct2, THEN conjunct1]
  note g = R[THEN conjunct2, THEN conjunct2, THEN conjunct2, THEN conjunct2, THEN conjunct2]
  have st: "Work (snd (gamma_numerator_pass (stub_env 1 3) (stub_args 4 0 (1/1000)) cg_state)) =
      (Work cg_state)
        (0 := set_data (Work cg_state 0)
           (\<lambda>i. if i < 2 then em_data (Work cg_state 0) i - em_data (Work cg_state 3) i
                else em_data (Work cg_state 0) i),
         3 := set_data (Work cg_state 3)
           (\<lambda>i. if i < 2 then em_data (Work cg_state 0) i else em_data (Work cg_state 3) i))"
    unfolding g by (simp add: W)
  show ?thesis
    unfolding st using n tr by (simp add: cg_state_def cg_block_def stub_simps set_data_def)
qed

lemma prev_traceGtX_before_cg:
  assumes "normalize ev i (force_approx ev a s0) = Inr s1" "apply_operator ev a i s1 = Inr s2"
  shows "prev_traceGtX (precondition ev a i (gradient ev (feedback ev a i s2))) = prev_traceGtX s0"
proof -
  from assms(1) have "prev_traceGtX s1 = prev_traceGtX s0"
    by (auto simp: normalize_def force_approx_def Let_def split: if_splits)
  moreover from assms(2) have "prev_traceGtX s2 = prev_traceGtX s1"
    by (auto simp: apply_operator_def Let_def case_prod_beta split: if_splits)
  moreover have "prev_traceGtX (precondition ev a i (gradient ev (feedback ev a i s2))) =
      prev_traceGtX s2"
    by (simp add: precondition_def gradient_def feedback_def say_def Let_def split: option.splits)
  ultimately show ?thesis by simp
qed

lemma init_prev_traceGtX:
  "eigensolver_init a st0 = Inr s0 \<Longrightarrow> prev_traceGtX s0 = 0"
  by (auto simp: eigensolver_init_def Let_def split: if_splits option.splits)

text \<open>
  Claim C5. With three or more work blocks, \<^verbatim>\<open>D\<close> is \<^verbatim>\<open>Work[2]\<close> and an iteration
  replaces it by the result of \<^verbatim>\<open>evectmatrix_aXpbY(gamma, D, 1.0, X)\<close>, that is
  \<open>gamma * D + X\<close>, where \<open>gamma\<close> is 0 when \<^verbatim>\<open>RESET_CG\<close> is set and
  \<open>(iteration + 1) mod 70 = 0\<close>, 0 when \<open>prev_traceGtX = 0\<close>, and otherwise the numerator
  divided by \<open>prev_traceGtX\<close>; the numerator is \<open>tr(G\<^sup>\<dagger>X)\<close> for \<open>nWork = 3\<close>
  (Fletcher-Reeves) and \<open>tr((G - prev_G)\<^sup>\<dagger>X)\<close> for \<open>nWork \<ge> 4\<close> (Polak-Ribiere). In
  the first iteration \<open>prev_traceGtX\<close> is 0 when the direction is computed.
\<close>

theorem cg_direction_update:
  assumes "nWork a \<ge> 3"
  shows "D_ix a = 2 \<and>
         Work (cg_direction ev a i st) 2 =
           (let N = em_n (Y st) * em_p (Y st);
                G = Work st 0; X = Work st 1; D = Work st 2; prev_G = Work st 3;
                G' = set_data G (\<lambda>j. if j < N then em_data G j - em_data prev_G j
                                       else em_data G j);
                gamma_numerator =
                  (if nWork a \<ge> 4 then SCALAR_RE ev (evectmatrix_traceXtY ev G' X)
                   else SCALAR_RE ev (evectmatrix_traceXtY ev G X));
                gamma =
                  (if flag_set (flags a) (EIGS_RESET_CG ev) \<and> (i + 1) mod 70 = 0 then 0
                   else if prev_traceGtX st = 0 then 0
                   else gamma_numerator / prev_traceGtX st)
            in set_data D (evectmatrix_aXpbY ev gamma D 1 X)) \<and>
         (eigensolver_init a st0 = Inr s0 \<and> normalize ev 0 (force_approx ev a s0) = Inr s1 \<and>
          apply_operator ev a 0 s1 = Inr s2 \<longrightarrow>
            prev_traceGtX (precondition ev a 0 (gradient ev (feedback ev a 0 s2))) = 0)"
proof (intro conjI impI)
  from assms have cg: "usingConjugateGradient a" by (simp add: usingConjugateGradient_def)
  then show "D_ix a = 2" by (simp add: D_ix_def)
  show "Work (cg_direction ev a i st) 2 =
           (let N = em_n (Y st) * em_p (Y st);
                G = Work st 0; X = Work st 1; D = Work st 2; prev_G = Work st 3;
                G' = set_data G (\<lambda>j. if j < N then em_data G j - em_data prev_G j
                                       else em_data G j);
                gamma_numerator =
                  (if nWork a \<ge> 4 then SCALAR_RE ev (evectmatrix_traceXtY ev G' X)
                   else SCALAR_RE ev (evectmatrix_traceXtY ev G X));
                gamma =
                  (if flag_set (flags a) (EIGS_RESET_CG ev) \<and> (i + 1) mod 70 = 0 then 0
                   else if prev_traceGtX st = 0 then 0
                   else gamma_numerator / prev_traceGtX st)
            in set_data D (evectmatrix_aXpbY ev gamma D 1 X))"
  proof (cases "nWork a \<ge> 4")
    case True
    then have pr: "use_polak_ribiere a" by (simp add: use_polak_ribiere_def)
    with cg True show ?thesis
      by (simp add: cg_direction_def gamma_numerator_pass_def pr_fused_eq cg_gamma_def
            cg_reset_def CG_RESET_ITERS_def D_ix_def prev_G_ix_def G_ix_def X_ix_def say_def
            Let_def cong: if_cong)
  next
    case False
    then have pr: "\<not> use_polak_ribiere a" by (simp add: use_polak_ribiere_def)
    with cg False show ?thesis
      by (simp add: cg_direction_def gamma_numerator_pass_def cg_gamma_def
            cg_reset_def CG_RESET_ITERS_def D_ix_def prev_G_ix_def G_ix_def X_ix_def say_def
            Let_def cong: if_cong)
  qed
next
  assume h: "eigensolver_init a st0 = Inr s0 \<and> normalize ev 0 (force_approx ev a s0) = Inr s1 \<and>
          apply_operator ev a 0 s1 = Inr s2"
  then show "prev_traceGtX (precondition ev a 0 (gradient ev (feedback ev a 0 s2))) = 0"
    using prev_traceGtX_before_cg[of ev 0 a s0 s1 s2] init_prev_traceGtX[of a st0 s0] by simp
qed

theorem cg_direction_update_witness:
  "nWork (stub_args 3 0 (1/1000)) \<ge> 3 \<and>
   em_data (Work (cg_direction (stub_env 1 3) (stub_args 3 0 (1/1000)) 5 cg_state) 2) 0 = 3/2 \<and>
   em_data (Work (cg_direction (stub_env 1 3) (stub_args 3 0 (1/1000)) 5 cg_state) 2) 1 = 7/4"
proof -
  have n: "nWork (stub_args 3 0 (1/1000)) \<ge> 3" by (simp add: stub_args_def)
  from cg_direction_update[OF n, of "stub_env 1 3" 5 cg_state]
  show ?thesis
    using n by (simp add: Let_def cg_state_def cg_block_def stub_simps set_data_def flag_set_def)
qed

subsection \<open>The exact line minimisation: safeguards on the Newton estimate\<close>

lemma downhill_sign: "downhill dE p = (if dE > 0 then -1 else 1) * \<bar>p\<bar>"
  by (simp add: downhill_def)

lemma newton_gain_nonneg:
  fixes dE d2E :: real
  assumes "\<not> d2E < 0"
  shows "-0.5 * dE * (- dE / d2E) = \<bar>0.5 * dE * (- dE / d2E)\<bar>"
proof -
  have a: "-0.5 * dE * (- dE / d2E) = - (0.5 * dE * (- dE / d2E))" by simp
  have "- (0.5 * dE * (- dE / d2E)) = 0.5 * ((dE * dE) / d2E)" by simp
  moreover have "0 \<le> (dE * dE) / d2E"
    using assms by (intro divide_nonneg_nonneg) simp_all
  ultimately have "0 \<le> - (0.5 * dE * (- dE / d2E))" by simp
  then have "\<bar>0.5 * dE * (- dE / d2E)\<bar> = - (0.5 * dE * (- dE / d2E))"
    by (simp only: abs_of_nonpos neg_0_le_iff_le)
  with a show ?thesis by (simp only:)
qed

lemma safeguard_theta_unfold:
  "safeguard_theta ev a dE d2E st =
     (let verbose = flag_set (flags a) (EIGS_VERBOSE ev);
          th0 = - dE / d2E;
          back = (if dE > 0 then -1 else 1) * \<bar>prev_theta st\<bar>;
          th1 = (if d2E < 0 then back else th0);
          msgs1 = (if d2E < 0 then [Msg_near_maximum]
                   else if -0.5 * dE * th0 > 2.0 * \<bar>E st - prev_E st\<bar>
                   then [Msg_large_trace_change] else []);
          msgs2 = (if \<bar>th1\<bar> \<ge> K_PI then [Msg_large_theta th1] else [])
      in st\<lparr>theta := (if \<bar>th1\<bar> \<ge> K_PI then back else th1),
             printed := printed st @ (if verbose then msgs1 @ msgs2 else [])\<rparr>)"
  unfolding safeguard_theta_def downhill_sign say_def Let_def
  by (cases "d2E < 0"; cases "flag_set (flags a) (EIGS_VERBOSE ev)";
      cases "dE > 0"; simp)

text \<open>
  Claim C7. With \<open>theta0 = -dE/d2E\<close> (for \<open>d2E \<noteq> 0\<close>) and
  \<open>back = sign(-dE) * \<bar>prev_theta\<bar>\<close>, where the sign is \<open>-1\<close> for \<open>dE > 0\<close> and \<open>1\<close>
  otherwise (so it is \<open>sgn (-dE)\<close> unless \<open>dE = 0\<close>, where it is \<open>1\<close>), the safeguards
  yield, in this order: (1) \<open>back\<close> in place of \<open>theta0\<close> if \<open>d2E < 0\<close>; (2) else \<open>theta0\<close>
  itself, with the message "large trace change predicted" printed exactly when
  \<open>\<bar>0.5 * dE * theta0\<bar> > 2 * \<bar>E - prev_E\<bar>\<close> and \<^verbatim>\<open>VERBOSE\<close> is set; (3) \<open>back\<close> if the
  result of (1) and (2) has absolute value at least \<^verbatim>\<open>K_PI\<close>, the program's constant for
  \<open>\<pi>\<close>. All messages are printed only in verbose mode. The result is the initial guess
  that the exact line minimisation passes to \<^verbatim>\<open>linmin\<close>.
\<close>

theorem theta_safeguards:
  assumes "d2E \<noteq> 0"
  shows "theta (safeguard_theta ev a dE d2E st) =
           (let theta0 = - dE / d2E;
                back = (if dE > 0 then -1 else 1) * \<bar>prev_theta st\<bar>;
                theta1 = (if d2E < 0 then back else theta0)
            in if \<bar>theta1\<bar> \<ge> K_PI then back else theta1) \<and>
         printed (safeguard_theta ev a dE d2E st) =
           printed st @
           (if flag_set (flags a) (EIGS_VERBOSE ev) then
              (let theta0 = - dE / d2E;
                   back = (if dE > 0 then -1 else 1) * \<bar>prev_theta st\<bar>;
                   theta1 = (if d2E < 0 then back else theta0)
               in (if d2E < 0 then [Msg_near_maximum]
                   else if \<bar>0.5 * dE * theta0\<bar> > 2 * \<bar>E st - prev_E st\<bar>
                   then [Msg_large_trace_change] else []) @
                  (if \<bar>theta1\<bar> \<ge> K_PI then [Msg_large_theta theta1] else []))
            else []) \<and>
         (dE \<noteq> 0 \<longrightarrow> (if dE > 0 then -1 else 1) = sgn (- dE)) \<and>
         (exact_derivatives ev a st0 = Inr ((dE, d2E), st) \<longrightarrow>
            exact_linmin ev a i st0 =
              exact_minimize ev a i dE (safeguard_theta ev a dE d2E st))"
proof (intro conjI impI)
  show "theta (safeguard_theta ev a dE d2E st) =
           (let theta0 = - dE / d2E;
                back = (if dE > 0 then -1 else 1) * \<bar>prev_theta st\<bar>;
                theta1 = (if d2E < 0 then back else theta0)
            in if \<bar>theta1\<bar> \<ge> K_PI then back else theta1)"
    unfolding safeguard_theta_unfold Let_def by simp
  have gain: "(-0.5 * dE * (- dE / d2E) > 2.0 * \<bar>E st - prev_E st\<bar>) =
          (\<bar>0.5 * dE * (- dE / d2E)\<bar> > 2 * \<bar>E st - prev_E st\<bar>)" if "\<not> d2E < 0"
    using newton_gain_nonneg[OF that, of dE] by (simp only:) simp
  show "printed (safeguard_theta ev a dE d2E st) =
           printed st @
           (if flag_set (flags a) (EIGS_VERBOSE ev) then
              (let theta0 = - dE / d2E;
                   back = (if dE > 0 then -1 else 1) * \<bar>prev_theta st\<bar>;
                   theta1 = (if d2E < 0 then back else theta0)
               in (if d2E < 0 then [Msg_near_maximum]
                   else if \<bar>0.5 * dE * theta0\<bar> > 2 * \<bar>E st - prev_E st\<bar>
                   then [Msg_large_trace_change] else []) @
                  (if \<bar>theta1\<bar> \<ge> K_PI then [Msg_large_theta theta1] else []))
            else [])"
  proof (cases "d2E < 0")
    case True
    then show ?thesis unfolding safeguard_theta_unfold Let_def by simp
  next
    case False
    have sel: "\<And>t x. printed (st\<lparr>theta := t, printed := x\<rparr>) = x" by simp
    show ?thesis unfolding safeguard_theta_unfold Let_def sel
      using False gain[OF False] by (simp only: if_False)
  qed
  show "(if dE > 0 then -1 else 1) = sgn (- dE)" if "dE \<noteq> 0"
    using that by (simp add: sgn_if)
  show "exact_linmin ev a i st0 = exact_minimize ev a i dE (safeguard_theta ev a dE d2E st)"
    if "exact_derivatives ev a st0 = Inr ((dE, d2E), st)"
    using that assms by (simp add: exact_linmin_def)
qed

theorem theta_safeguards_witness:
  "(-8::real) \<noteq> 0 \<and>
   theta (safeguard_theta (stub_env 1 3) (stub_args 2 1 (1/1000)) 2 (-8)
            (stub_state\<lparr>prev_theta := 1/2\<rparr>)) = -1/2 \<and>
   printed (safeguard_theta (stub_env 1 3) (stub_args 2 1 (1/1000)) 2 (-8)
              (stub_state\<lparr>prev_theta := 1/2\<rparr>)) = [Msg_near_maximum]"
  using theta_safeguards[of "-8" "stub_env 1 3" "stub_args 2 1 (1/1000)" 2
          "stub_state\<lparr>prev_theta := 1/2\<rparr>" stub_state 0]
  by (simp add: Let_def stub_simps flag_set_def K_PI_def)

subsection \<open>The approximate line minimisation\<close>

lemma approx_probe_frame:
  assumes "approx_probe ev a st = Inr ((dE, t, E2), st1)"
  shows "E st1 = E st \<and> prev_E st1 = prev_E st \<and> use_linmin st1 = use_linmin st \<and>
         Work st1 (D_ix a) = (if D_ix a = X_ix
             then set_data (Work st X_ix)
                    (snd (A a (Y st1) True (Work st G_ix) (Work st X_ix)))
             else Work st (D_ix a)) \<and>
         t = (if dE < 0 then - \<bar>prev_theta st\<bar> else \<bar>prev_theta st\<bar>) \<and>
         Y st1 = set_data (Y st)
                   (evectmatrix_aXpbY ev 1 (Y st) (t / d_norm st1) (Work st (D_ix a)))"
  using assms
  by (auto simp: approx_probe_def Let_def case_prod_beta D_ix_def G_ix_def X_ix_def
        split: if_splits)

lemma approx_newton_frame:
  assumes "approx_newton dE t E2 st1 = Inr (d2E, st2)"
  shows "st2 = st1\<lparr>theta := - dE / d2E\<rparr> \<and> d2E = (E2 - E st1 - dE * t) / (0.5 * t * t) \<and>
         d2E \<noteq> 0 \<and> t \<noteq> 0"
  using assms by (auto simp: approx_newton_def Let_def split: if_splits)

text \<open>
  The decision of the approximate strategy. In an iteration that starts the line
  minimisation with the approximate strategy, let \<open>dE\<close>, \<open>t\<close> and \<open>E2\<close> be the
  derivative, the probe and the trace at the probe, with \<open>Y\<close> already shifted by
  \<open>(t / d_norm) * D\<close>, and let \<open>d2E = (E2 - E - dE * t) / (0.5 * t\<^sup>2)\<close> and
  \<open>theta = -dE / d2E\<close>. If \<open>d2E < 0\<close> or \<open>-0.5 * dE * theta > 20 * \<bar>E - prev_E\<bar>\<close>, then
  \<^verbatim>\<open>use_linmin\<close> is set, \<open>Y\<close> is replaced by \<^verbatim>\<open>aXpbY(1, Y, -t / d_norm, D)\<close> on the block
  \<open>D\<close> as it is then, and the exact line minimisation runs on that state in the same
  iteration. Otherwise \<open>Y\<close> is replaced by \<^verbatim>\<open>aXpbY(1, Y, (theta - t) / d_norm, D)\<close> and the
  line minimisation of this iteration is over. With three or more work blocks \<open>D\<close> is
  the same in the probe and in the later shift, so that the first case takes the probe
  shift back; with two work blocks \<open>D\<close> is the block \<open>X\<close>, which the operator has had
  as its scratch block in between.
\<close>

lemma approx_linmin_decision:
  assumes "\<not> use_linmin st"
    and "approx_probe ev a st = Inr ((dE, t, E2), st1)"
    and "approx_newton dE t E2 st1 = Inr (d2E, st2)"
  shows "d2E = (E2 - E st - dE * t) / (0.5 * t * t) \<and> theta st2 = - dE / d2E \<and>
         Y st2 = set_data (Y st)
                   (evectmatrix_aXpbY ev 1 (Y st) (t / d_norm st2) (Work st (D_ix a))) \<and>
         (nWork a \<ge> 3 \<longrightarrow> Work st2 (D_ix a) = Work st (D_ix a)) \<and>
         (d2E < 0 \<or> -0.5 * dE * theta st2 > 20 * \<bar>E st - prev_E st\<bar> \<longrightarrow>
            line_minimize ev a i st = exact_linmin ev a i (approx_step ev a dE d2E t st2) \<and>
            use_linmin (approx_step ev a dE d2E t st2) \<and>
            Y (approx_step ev a dE d2E t st2) =
              set_data (Y st2)
                (evectmatrix_aXpbY ev 1 (Y st2) (- t / d_norm st2) (Work st2 (D_ix a)))) \<and>
         (\<not> (d2E < 0 \<or> -0.5 * dE * theta st2 > 20 * \<bar>E st - prev_E st\<bar>) \<longrightarrow>
            line_minimize ev a i st =
              Some (Inr (st2\<lparr>Y := set_data (Y st2)
                  (evectmatrix_aXpbY ev 1 (Y st2) ((theta st2 - t) / d_norm st2)
                     (Work st2 (D_ix a)))\<rparr>)))"
proof -
  note p = approx_probe_frame[OF assms(2)]
  note n = approx_newton_frame[OF assms(3)]
  have st2: "E st2 = E st" "prev_E st2 = prev_E st" "\<not> use_linmin st2"
    "theta st2 = - dE / d2E" "d_norm st2 = d_norm st1" "Y st2 = Y st1"
    using p n assms(1) by simp_all
  have lm: "line_minimize ev a i st =
      (if use_linmin (approx_step ev a dE d2E t st2)
       then exact_linmin ev a i (approx_step ev a dE d2E t st2)
       else Some (Inr (approx_step ev a dE d2E t st2)))"
    using assms by (simp add: line_minimize_def approx_linmin_def)
  show ?thesis
  proof (intro conjI impI)
    show "d2E = (E2 - E st - dE * t) / (0.5 * t * t)" using p n by simp
    show "theta st2 = - dE / d2E" by (rule st2(4))
    show "Y st2 = set_data (Y st)
                   (evectmatrix_aXpbY ev 1 (Y st) (t / d_norm st2) (Work st (D_ix a)))"
      using p st2 by simp
    show "Work st2 (D_ix a) = Work st (D_ix a)" if "nWork a \<ge> 3"
      using that p n by (simp add: D_ix_def X_ix_def usingConjugateGradient_def)
  next
    assume c: "d2E < 0 \<or> -0.5 * dE * theta st2 > 20 * \<bar>E st - prev_E st\<bar>"
    then have c': "d2E < 0 \<or> -0.5 * dE * theta st2 > 20.0 * \<bar>E st2 - prev_E st2\<bar>"
      using st2 by simp
    from c' show u: "use_linmin (approx_step ev a dE d2E t st2)"
      unfolding approx_step_def Let_def by (simp add: say_def)
    from u lm show "line_minimize ev a i st =
        exact_linmin ev a i (approx_step ev a dE d2E t st2)" by simp
    from c' show "Y (approx_step ev a dE d2E t st2) =
              set_data (Y st2)
                (evectmatrix_aXpbY ev 1 (Y st2) (- t / d_norm st2) (Work st2 (D_ix a)))"
      unfolding approx_step_def Let_def by (simp add: say_def)
  next
    assume c: "\<not> (d2E < 0 \<or> -0.5 * dE * theta st2 > 20 * \<bar>E st - prev_E st\<bar>)"
    then have c': "\<not> (d2E < 0 \<or> -0.5 * dE * theta st2 > 20.0 * \<bar>E st2 - prev_E st2\<bar>)"
      using st2 by simp
    then have s: "approx_step ev a dE d2E t st2 =
        st2\<lparr>Y := set_data (Y st2)
                  (evectmatrix_aXpbY ev 1 (Y st2) ((theta st2 - t) / d_norm st2)
                     (Work st2 (D_ix a)))\<rparr>"
      unfolding approx_step_def by (simp only: if_False) simp
    with st2(3) have "\<not> use_linmin (approx_step ev a dE d2E t st2)" by simp
    with lm s show "line_minimize ev a i st =
              Some (Inr (st2\<lparr>Y := set_data (Y st2)
                  (evectmatrix_aXpbY ev 1 (Y st2) ((theta st2 - t) / d_norm st2)
                     (Work st2 (D_ix a)))\<rparr>))" by simp
  qed
qed

lemmas probe_eval = approx_probe_def stub_simps Let_def D_ix_def prev_G_ix_def G_ix_def X_ix_def
     usingConjugateGradient_def use_polak_ribiere_def set_data_def cg_state_def cg_block_def

lemma approx_linmin_decision_runs:
  "\<not> use_linmin (cg_state\<lparr>prev_theta := 1/2, E := 1\<rparr>) \<and>
   (\<exists>st1 st2 r.
      approx_probe (stub_env 1 3) (stub_args 3 16 (1/1000)) (cg_state\<lparr>prev_theta := 1/2, E := 1\<rparr>) =
        Inr ((2, 1/2, 3), st1) \<and>
      approx_newton 2 (1/2) 3 st1 = Inr (8, st2) \<and> theta st2 = - 1/4 \<and>
      line_minimize (stub_env 1 3) (stub_args 3 16 (1/1000)) 0 (cg_state\<lparr>prev_theta := 1/2, E := 1\<rparr>) =
        Some (Inr r) \<and> \<not> use_linmin r) \<and>
   (\<exists>st1 st2.
      approx_probe (stub_env 1 0) (stub_args 3 16 (1/1000)) (cg_state\<lparr>prev_theta := 1/2, E := 1\<rparr>) =
        Inr ((2, 1/2, 0), st1) \<and>
      approx_newton 2 (1/2) 0 st1 = Inr (-16, st2) \<and>
      use_linmin (approx_step (stub_env 1 0) (stub_args 3 16 (1/1000)) 2 (-16) (1/2) st2))"
proof -
  let ?st = "cg_state\<lparr>prev_theta := 1/2, E := 1\<rparr>"
  let ?a = "stub_args 3 16 (1/1000)"
  have u: "\<not> use_linmin ?st" by (simp add: cg_state_def stub_state_def)
  have ee: "E ?st = 1" "prev_E ?st = 0" by (simp_all add: cg_state_def stub_state_def)
  have "\<exists>st1. approx_probe (stub_env 1 3) ?a ?st = Inr ((2, 1/2, 3), st1)"
    by (simp add: probe_eval)
  then obtain st1 where p: "approx_probe (stub_env 1 3) ?a ?st = Inr ((2, 1/2, 3), st1)" ..
  from approx_probe_frame[OF p] have f1: "E st1 = E ?st" "use_linmin st1 = use_linmin ?st"
    by blast+
  have e1: "E st1 = 1" using f1(1) ee(1) by (simp only:)
  have n: "approx_newton 2 (1/2) 3 st1 = Inr (8, st1\<lparr>theta := - 1/4\<rparr>)"
    using e1 by (simp add: approx_newton_def)
  have th: "theta (st1\<lparr>theta := - 1/4\<rparr>) = - 1/4" by simp
  have nc: "\<not> (8 < (0::real) \<or> -0.5 * 2 * theta (st1\<lparr>theta := - 1/4\<rparr>) >
               20 * \<bar>E ?st - prev_E ?st\<bar>)"
    unfolding th ee by simp
  from approx_linmin_decision[OF u p n, of 0]
  have "\<not> (8 < (0::real) \<or> -0.5 * 2 * theta (st1\<lparr>theta := - 1/4\<rparr>) >
               20 * \<bar>E ?st - prev_E ?st\<bar>) \<longrightarrow>
        line_minimize (stub_env 1 3) ?a 0 ?st =
          Some (Inr (st1\<lparr>theta := - 1/4,
             Y := set_data (Y (st1\<lparr>theta := - 1/4\<rparr>))
                  (evectmatrix_aXpbY (stub_env 1 3) 1 (Y (st1\<lparr>theta := - 1/4\<rparr>))
                     ((theta (st1\<lparr>theta := - 1/4\<rparr>) - 1/2) / d_norm (st1\<lparr>theta := - 1/4\<rparr>))
                     (Work (st1\<lparr>theta := - 1/4\<rparr>) (D_ix ?a)))\<rparr>))"
    by (elim conjE)
  with nc have lm: "line_minimize (stub_env 1 3) ?a 0 ?st =
          Some (Inr (st1\<lparr>theta := - 1/4,
             Y := set_data (Y (st1\<lparr>theta := - 1/4\<rparr>))
                  (evectmatrix_aXpbY (stub_env 1 3) 1 (Y (st1\<lparr>theta := - 1/4\<rparr>))
                     ((theta (st1\<lparr>theta := - 1/4\<rparr>) - 1/2) / d_norm (st1\<lparr>theta := - 1/4\<rparr>))
                     (Work (st1\<lparr>theta := - 1/4\<rparr>) (D_ix ?a)))\<rparr>))"
    by (rule mp[rotated])
  have nu: "\<not> use_linmin (st1\<lparr>theta := - 1/4,
             Y := set_data (Y (st1\<lparr>theta := - 1/4\<rparr>))
                  (evectmatrix_aXpbY (stub_env 1 3) 1 (Y (st1\<lparr>theta := - 1/4\<rparr>))
                     ((theta (st1\<lparr>theta := - 1/4\<rparr>) - 1/2) / d_norm (st1\<lparr>theta := - 1/4\<rparr>))
                     (Work (st1\<lparr>theta := - 1/4\<rparr>) (D_ix ?a)))\<rparr>)"
    using f1(2) u by simp
  have first: "\<exists>st1 st2 r.
      approx_probe (stub_env 1 3) ?a ?st = Inr ((2, 1/2, 3), st1) \<and>
      approx_newton 2 (1/2) 3 st1 = Inr (8, st2) \<and> theta st2 = - 1/4 \<and>
      line_minimize (stub_env 1 3) ?a 0 ?st = Some (Inr r) \<and> \<not> use_linmin r"
    using p n th lm nu by (intro exI conjI)
  have "\<exists>st1. approx_probe (stub_env 1 0) ?a ?st = Inr ((2, 1/2, 0), st1)"
    by (simp add: probe_eval)
  then obtain st1' where p': "approx_probe (stub_env 1 0) ?a ?st = Inr ((2, 1/2, 0), st1')" ..
  from approx_probe_frame[OF p'] have f1': "E st1' = E ?st" by blast
  have e1': "E st1' = 1" using f1' ee(1) by (simp only:)
  have n': "approx_newton 2 (1/2) 0 st1' = Inr (-16, st1'\<lparr>theta := 1/8\<rparr>)"
    using e1' by (simp add: approx_newton_def)
  from approx_linmin_decision[OF u p' n', of 0]
  have "(-16 < (0::real) \<or> -0.5 * 2 * theta (st1'\<lparr>theta := 1/8\<rparr>) >
               20 * \<bar>E ?st - prev_E ?st\<bar>) \<longrightarrow>
        line_minimize (stub_env 1 0) ?a 0 ?st =
          exact_linmin (stub_env 1 0) ?a 0
            (approx_step (stub_env 1 0) ?a 2 (-16) (1/2) (st1'\<lparr>theta := 1/8\<rparr>)) \<and>
        use_linmin (approx_step (stub_env 1 0) ?a 2 (-16) (1/2) (st1'\<lparr>theta := 1/8\<rparr>)) \<and>
        Y (approx_step (stub_env 1 0) ?a 2 (-16) (1/2) (st1'\<lparr>theta := 1/8\<rparr>)) =
          set_data (Y (st1'\<lparr>theta := 1/8\<rparr>))
            (evectmatrix_aXpbY (stub_env 1 0) 1 (Y (st1'\<lparr>theta := 1/8\<rparr>))
               (- (1/2) / d_norm (st1'\<lparr>theta := 1/8\<rparr>))
               (Work (st1'\<lparr>theta := 1/8\<rparr>) (D_ix ?a)))"
    by (elim conjE)
  then have ul: "use_linmin (approx_step (stub_env 1 0) ?a 2 (-16) (1/2) (st1'\<lparr>theta := 1/8\<rparr>))"
    by simp
  have second: "\<exists>st1 st2.
      approx_probe (stub_env 1 0) ?a ?st = Inr ((2, 1/2, 0), st1) \<and>
      approx_newton 2 (1/2) 0 st1 = Inr (-16, st2) \<and>
      use_linmin (approx_step (stub_env 1 0) ?a 2 (-16) (1/2) st2)"
    using p' n' ul by (intro exI conjI)
  from u first second show ?thesis by (intro conjI)
qed

text \<open>
  Claim C3 at an input with two work blocks, where \<open>D\<close> is the block \<open>X\<close>, and an
  operator that writes to its scratch block. \<open>Y\<close> starts as \<open>(1, 0)\<close> and \<open>D\<close> as
  \<open>(1, 1)\<close>; the probe \<open>t = 1/2\<close> shifts \<open>Y\<close> to \<open>(3/2, 1/2)\<close>; the operator call of line
  493 then leaves 42 in \<open>X\<close>, that is in \<open>D\<close>; the second derivative is negative, so the
  strategy switches to the exact line minimisation and subtracts \<open>(t / d_norm) * D\<close>
  from \<open>Y\<close>: with the overwritten \<open>D\<close> this gives \<open>(-39/2, -41/2)\<close>, not the \<open>Y\<close> from
  before the probe. With three work blocks, where \<open>D\<close> is a block of its own
  (\<open>(2, 3)\<close> here), the same run does restore \<open>Y = (1, 0)\<close>.
\<close>

theorem approx_linmin_undo_aliased:
  "nWork (scribbling_args 2) = 2 \<and> D_ix (scribbling_args 2) = X_ix \<and>
   \<not> use_linmin (cg_state\<lparr>prev_theta := 1/2, E := 1\<rparr>) \<and>
   em_data (Y (cg_state\<lparr>prev_theta := 1/2, E := 1\<rparr>)) 0 = 1 \<and>
   em_data (Y (cg_state\<lparr>prev_theta := 1/2, E := 1\<rparr>)) 1 = 0 \<and>
   (case approx_probe (stub_env 1 0) (scribbling_args 2) (cg_state\<lparr>prev_theta := 1/2, E := 1\<rparr>) of
      Inr ((dE, t, E2), st1) \<Rightarrow>
        dE = 2 \<and> t = 1/2 \<and> E2 = 0 \<and> d_norm st1 = 1 \<and>
        em_data (Y st1) 0 = 3/2 \<and> em_data (Y st1) 1 = 1/2 \<and>
        em_data (Work st1 (D_ix (scribbling_args 2))) 0 = 42
    | Inl e \<Rightarrow> False) \<and>
   (case approx_linmin (stub_env 1 0) (scribbling_args 2) (cg_state\<lparr>prev_theta := 1/2, E := 1\<rparr>) of
      Inr st' \<Rightarrow> use_linmin st' \<and> em_data (Y st') 0 = - 39/2 \<and> em_data (Y st') 1 = - 41/2
    | Inl e \<Rightarrow> False) \<and>
   (case approx_linmin (stub_env 1 0) (scribbling_args 3) (cg_state\<lparr>prev_theta := 1/2, E := 1\<rparr>) of
      Inr st' \<Rightarrow> use_linmin st' \<and> em_data (Y st') 0 = 1 \<and> em_data (Y st') 1 = 0
    | Inl e \<Rightarrow> False)"
  by (simp add: approx_linmin_def approx_probe_def approx_newton_def approx_step_def
        scribbling_args_def stub_simps cg_state_def cg_block_def Let_def D_ix_def prev_G_ix_def
        G_ix_def X_ix_def usingConjugateGradient_def use_polak_ribiere_def set_data_def
        flag_set_def say_def)

subsection \<open>The strategy controller\<close>

lemma choose_strategy_frame:
  "linmin_improvement (choose_strategy ev a st) = linmin_improvement st"
  "time_estimates ev a (choose_strategy ev a st) = time_estimates ev a st"
  by (simp_all add: choose_strategy_def time_estimates_def say_def Let_def case_prod_beta)

lemma choose_strategy_decision:
  "\<not> use_linmin (choose_strategy ev a st) \<longleftrightarrow>
     \<not> flag_set (flags a) (EIGS_FORCE_EXACT_LINMIN ev) \<and>
     0 < linmin_improvement st \<and> linmin_improvement st \<le> 0.05 \<and>
     fst (time_estimates ev a st) > 2.0 * snd (time_estimates ev a st)"
  by (simp add: choose_strategy_def say_def Let_def case_prod_beta
        APPROX_LINMIN_IMPROVEMENT_THRESHOLD_def APPROX_LINMIN_SLOWDOWN_GUESS_def mult.commute)

lemma iteration_body_continue:
  assumes "iteration_body ev a i st = Some (Inr (Continue st'))"
  shows "\<exists>s. st' = choose_strategy ev a s"
  using assms
  by (auto simp: iteration_body_def split: sum.splits if_splits option.splits)

lemma iteration_body_force:
  "iteration_body ev a i st = iteration_body ev a i (force_approx ev a st)"
  by (simp add: iteration_body_def force_approx_def)

text \<open>
  Claim C4. The estimates are \<open>t_exact = 2 t_AZ + t_KZ + 4 t_ZtW + 2 t_ZS + 2 t_ZtZ +
  t_linmin\<close> and \<open>t_approx = 2 t_AZ + t_KZ + 2 t_ZtW + 2 t_ZS + 2 t_ZtZ\<close>, each with
  \<open>t_ZtW + t_ZS\<close> added when \<^verbatim>\<open>PROJECT_PRECONDITIONING\<close> is set. The controller selects the
  approximate strategy (\<^verbatim>\<open>use_linmin = 0\<close>) if and only if \<^verbatim>\<open>FORCE_EXACT_LINMIN\<close> is not
  set, \<^verbatim>\<open>linmin_improvement\<close> is positive and at most 0.05, and
  \<open>t_exact > 2.0 * t_approx\<close>; otherwise it selects the exact one. This is the last step
  of every iteration that reaches its end, so the state handed to the next iteration
  carries that choice. \<^verbatim>\<open>linmin_improvement\<close> holds the improvement of the last exact line
  minimisation (the variable is uninitialised before the first one). When
  \<^verbatim>\<open>FORCE_APPROX_LINMIN\<close> is set, every iteration starts by selecting the approximate
  strategy, whatever the controller chose: the iteration runs as if \<^verbatim>\<open>use_linmin\<close> were 0.
\<close>

theorem strategy_controller:
  "time_estimates ev a st =
     (2 * time_AZ st + time_KZ st + 4 * time_ZtW st + 2 * time_ZS st + 2 * time_ZtZ st +
        time_linmin st +
        (if flag_set (flags a) (EIGS_PROJECT_PRECONDITIONING ev) then time_ZtW st + time_ZS st
         else 0),
      2 * time_AZ st + time_KZ st + 2 * time_ZtW st + 2 * time_ZS st + 2 * time_ZtZ st +
        (if flag_set (flags a) (EIGS_PROJECT_PRECONDITIONING ev) then time_ZtW st + time_ZS st
         else 0)) \<and>
   (\<not> use_linmin (choose_strategy ev a st) \<longleftrightarrow>
      \<not> flag_set (flags a) (EIGS_FORCE_EXACT_LINMIN ev) \<and>
      0 < linmin_improvement st \<and> linmin_improvement st \<le> 0.05 \<and>
      fst (time_estimates ev a st) > 2.0 * snd (time_estimates ev a st)) \<and>
   (iteration_body ev a i st = Some (Inr (Continue st')) \<longrightarrow>
      (\<not> use_linmin st' \<longleftrightarrow>
         \<not> flag_set (flags a) (EIGS_FORCE_EXACT_LINMIN ev) \<and>
         0 < linmin_improvement st' \<and> linmin_improvement st' \<le> 0.05 \<and>
         fst (time_estimates ev a st') > 2.0 * snd (time_estimates ev a st'))) \<and>
   (flag_set (flags a) (EIGS_FORCE_APPROX_LINMIN ev) \<longrightarrow>
      \<not> use_linmin (force_approx ev a st) \<and>
      iteration_body ev a i st = iteration_body ev a i (st\<lparr>use_linmin := False\<rparr>))"
proof (intro conjI impI)
  show "time_estimates ev a st =
     (2 * time_AZ st + time_KZ st + 4 * time_ZtW st + 2 * time_ZS st + 2 * time_ZtZ st +
        time_linmin st +
        (if flag_set (flags a) (EIGS_PROJECT_PRECONDITIONING ev) then time_ZtW st + time_ZS st
         else 0),
      2 * time_AZ st + time_KZ st + 2 * time_ZtW st + 2 * time_ZS st + 2 * time_ZtZ st +
        (if flag_set (flags a) (EIGS_PROJECT_PRECONDITIONING ev) then time_ZtW st + time_ZS st
         else 0))"
    by (simp add: time_estimates_def EXACT_LINMIN_TIME_def APPROX_LINMIN_TIME_def Let_def)
  show "\<not> use_linmin (choose_strategy ev a st) \<longleftrightarrow>
      \<not> flag_set (flags a) (EIGS_FORCE_EXACT_LINMIN ev) \<and>
      0 < linmin_improvement st \<and> linmin_improvement st \<le> 0.05 \<and>
      fst (time_estimates ev a st) > 2.0 * snd (time_estimates ev a st)"
    by (rule choose_strategy_decision)
next
  assume "iteration_body ev a i st = Some (Inr (Continue st'))"
  then obtain s where s: "st' = choose_strategy ev a s"
    using iteration_body_continue by blast
  show "\<not> use_linmin st' \<longleftrightarrow>
         \<not> flag_set (flags a) (EIGS_FORCE_EXACT_LINMIN ev) \<and>
         0 < linmin_improvement st' \<and> linmin_improvement st' \<le> 0.05 \<and>
         fst (time_estimates ev a st') > 2.0 * snd (time_estimates ev a st')"
    unfolding s choose_strategy_frame by (rule choose_strategy_decision)
next
  assume f: "flag_set (flags a) (EIGS_FORCE_APPROX_LINMIN ev)"
  then show "\<not> use_linmin (force_approx ev a st)" by (simp add: force_approx_def)
  from f have "force_approx ev a st = force_approx ev a (st\<lparr>use_linmin := False\<rparr>)"
    by (simp add: force_approx_def)
  then show "iteration_body ev a i st = iteration_body ev a i (st\<lparr>use_linmin := False\<rparr>)"
    by (simp add: iteration_body_def)
qed

theorem strategy_controller_witness:
  "flag_set (flags (stub_args 2 16 (1/1000))) (EIGS_FORCE_APPROX_LINMIN (stub_env 1 3)) \<and>
   (\<exists>st'. iteration_body (stub_env 1 3) (stub_args 2 16 (1/1000)) 0
            (stub_state\<lparr>prev_theta := 1/2, time_linmin := 10, linmin_improvement := 1/100\<rparr>) =
            Some (Inr (Continue st')) \<and>
          linmin_improvement st' = 1/100 \<and>
          time_estimates (stub_env 1 3) (stub_args 2 16 (1/1000)) st' = (20, 8) \<and>
          \<not> use_linmin st')"
proof -
  let ?ev = "stub_env 1 3"
  let ?a = "stub_args 2 16 (1/1000)"
  let ?st = "stub_state\<lparr>prev_theta := 1/2, time_linmin := 10, linmin_improvement := 1/100\<rparr>"
  have fl: "flag_set (flags ?a) (EIGS_FORCE_APPROX_LINMIN ?ev)"
    by (simp add: flag_set_def stub_env_def stub_args_def)
  have nfe: "\<not> flag_set (flags ?a) (EIGS_FORCE_EXACT_LINMIN ?ev)"
    by (simp add: flag_set_def stub_env_def stub_args_def)
  have "\<exists>st'. iteration_body ?ev ?a 0 ?st = Some (Inr (Continue st')) \<and>
          linmin_improvement st' = 1/100 \<and> time_estimates ?ev ?a st' = (20, 8)"
    by (simp add: iteration_body_def phase_defs stub_simps Let_def)
  then obtain st' where b: "iteration_body ?ev ?a 0 ?st = Some (Inr (Continue st'))"
    and li: "linmin_improvement st' = 1/100" and te: "time_estimates ?ev ?a st' = (20, 8)"
    by blast
  from strategy_controller[of ?ev ?a ?st 0 st'] b
  have "\<not> use_linmin st' \<longleftrightarrow>
         \<not> flag_set (flags ?a) (EIGS_FORCE_EXACT_LINMIN ?ev) \<and>
         0 < linmin_improvement st' \<and> linmin_improvement st' \<le> 0.05 \<and>
         fst (time_estimates ?ev ?a st') > 2.0 * snd (time_estimates ?ev ?a st')"
    by blast
  then have "\<not> use_linmin st'" unfolding li te using nfe by simp
  with fl b li te show ?thesis by blast
qed

end
